theory Spec2Isabelle
  imports Complex_Main "HOL-Library.AList"
begin

section \<open>Values, exceptions and the Python primitives used by countries.py\<close>

text \<open>
  A raw country record is whatever \<^verbatim>\<open>json.load\<close> / \<^verbatim>\<open>response.json()\<close> hands back:
  a nested, untyped value. A Python dict keeps insertion order and the joins of
  \<^verbatim>\<open>transform_country\<close> depend on it, so a dict is an association list; \<^verbatim>\<open>None\<close>
  is \<open>JNull\<close>. The same type carries the fields of the returned tuple.
\<close>

datatype json =
    JNull
  | JBool bool
  | JInt int
  | JFloat real
  | JStr string
  | JList "json list"
  | JDict "(string \<times> json) list"

text \<open>The exceptions that can leave the functions of the script.\<close>

datatype exn =
    AttributeError
  | TypeError
  | UnboundLocalError
  | ValueError
  | OverflowError
  | ConnectionError
  | External string

type_synonym 'a result = "exn + 'a"

definition bind_res :: "'a result \<Rightarrow> ('a \<Rightarrow> 'b result) \<Rightarrow> 'b result" where
  "bind_res m f = (case m of Inl e \<Rightarrow> Inl e | Inr v \<Rightarrow> f v)"

fun map_res :: "('a \<Rightarrow> 'b result) \<Rightarrow> 'a list \<Rightarrow> 'b list result" where
  "map_res f [] = Inr []"
| "map_res f (x # xs) =
     bind_res (f x) (\<lambda>y. bind_res (map_res f xs) (\<lambda>ys. Inr (y # ys)))"

text \<open>\<^verbatim>\<open>bool(v)\<close>: the truth value Python gives a value in \<^verbatim>\<open>if v\<close> / \<^verbatim>\<open>not v\<close>.\<close>

fun truthy :: "json \<Rightarrow> bool" where
  "truthy JNull = False"
| "truthy (JBool b) = b"
| "truthy (JInt i) = (i \<noteq> 0)"
| "truthy (JFloat x) = (x \<noteq> 0)"
| "truthy (JStr s) = (s \<noteq> [])"
| "truthy (JList xs) = (xs \<noteq> [])"
| "truthy (JDict kvs) = (kvs \<noteq> [])"

text \<open>
  \<^verbatim>\<open>d.get(k, default)\<close>: only a dict has the method; on any other value the
  attribute lookup raises AttributeError.
\<close>

fun dict_get :: "json \<Rightarrow> string \<Rightarrow> json \<Rightarrow> json result" where
  "dict_get (JDict kvs) k d = Inr (case map_of kvs k of None \<Rightarrow> d | Some v \<Rightarrow> v)"
| "dict_get _ k d = Inl AttributeError"

text \<open>\<^verbatim>\<open>d.values()\<close> and \<^verbatim>\<open>d.keys()\<close>, in insertion order.\<close>

fun dict_values :: "json \<Rightarrow> json list result" where
  "dict_values (JDict kvs) = Inr (map snd kvs)"
| "dict_values _ = Inl AttributeError"

fun dict_keys :: "json \<Rightarrow> json list result" where
  "dict_keys (JDict kvs) = Inr (map (\<lambda>kv. JStr (fst kv)) kvs)"
| "dict_keys _ = Inl AttributeError"

text \<open>
  Iterating a value (\<^verbatim>\<open>for x in v\<close>, \<^verbatim>\<open>str.join(v)\<close>, \<^verbatim>\<open>zip(v, _)\<close>): a list
  gives its elements, a string its characters, a dict its keys; nothing else is
  iterable.
\<close>

fun py_iter :: "json \<Rightarrow> json list result" where
  "py_iter (JList xs) = Inr xs"
| "py_iter (JStr s) = Inr (map (\<lambda>c. JStr [c]) s)"
| "py_iter (JDict kvs) = Inr (map (\<lambda>kv. JStr (fst kv)) kvs)"
| "py_iter _ = Inl TypeError"

text \<open>\<^verbatim>\<open>sep.join(items)\<close> on items already known to be strings.\<close>

fun join_sep :: "string \<Rightarrow> string list \<Rightarrow> string" where
  "join_sep sep [] = []"
| "join_sep sep [x] = x"
| "join_sep sep (x # y # ys) = x @ sep @ join_sep sep (y # ys)"

text \<open>\<^verbatim>\<open>str.join\<close> raises TypeError on the first item that is not a string.\<close>

fun as_str :: "json \<Rightarrow> string result" where
  "as_str (JStr s) = Inr s"
| "as_str _ = Inl TypeError"

definition py_join :: "string \<Rightarrow> json list \<Rightarrow> json result" where
  "py_join sep items = bind_res (map_res as_str items) (\<lambda>ss. Inr (JStr (join_sep sep ss)))"

text \<open>
  \<^verbatim>\<open>a + b\<close>. Strings and lists concatenate, numbers (bool counts as int) add, every
  other pair raises TypeError. Adding an int and a float first converts the int
  to a float, which raises OverflowError when the int rounds to a value beyond
  the largest double, that is from \<open>2 ^ 1024 - 2 ^ 970\<close> on in absolute value.
  The rounding of floats is not modelled: a float is carried as the real it
  stands for.
\<close>

fun num_val :: "json \<Rightarrow> (int + real) option" where
  "num_val (JBool b) = Some (Inl (if b then 1 else 0))"
| "num_val (JInt i) = Some (Inl i)"
| "num_val (JFloat x) = Some (Inr x)"
| "num_val _ = None"

definition float_of_int :: "int \<Rightarrow> real result" where
  "float_of_int i =
     (if \<bar>i\<bar> \<ge> 2 ^ 1024 - 2 ^ 970 then Inl OverflowError else Inr (real_of_int i))"

fun num_add :: "int + real \<Rightarrow> int + real \<Rightarrow> json result" where
  "num_add (Inl i) (Inl j) = Inr (JInt (i + j))"
| "num_add (Inl i) (Inr y) = bind_res (float_of_int i) (\<lambda>x. Inr (JFloat (x + y)))"
| "num_add (Inr x) (Inl j) = bind_res (float_of_int j) (\<lambda>y. Inr (JFloat (x + y)))"
| "num_add (Inr x) (Inr y) = Inr (JFloat (x + y))"

fun py_add :: "json \<Rightarrow> json \<Rightarrow> json result" where
  "py_add (JStr a) (JStr b) = Inr (JStr (a @ b))"
| "py_add (JList a) (JList b) = Inr (JList (a @ b))"
| "py_add a b =
     (case (num_val a, num_val b) of
        (Some x, Some y) \<Rightarrow> num_add x y
      | _ \<Rightarrow> Inl TypeError)"

section \<open>transform\_country\<close>

text \<open>
  The seventeen entries of the returned tuple, each named after the column it
  fills and built exactly as the corresponding line of the tuple expression
  (lines 119 to 135 of countries.py). \<open>name\<close>, \<open>currencies\<close> and \<open>idd\<close> are the
  three locals bound on lines 114 to 116.
\<close>

definition field_common :: "json \<Rightarrow> json result" where
  "field_common name = dict_get name ''common'' JNull"

definition field_official :: "json \<Rightarrow> json result" where
  "field_official name = dict_get name ''official'' JNull"

definition field_native_names :: "json \<Rightarrow> json result" where
  "field_native_names name =
     bind_res (dict_get name ''nativeName'' (JDict [])) (\<lambda>nn.
     bind_res (dict_values nn) (\<lambda>natives.
     bind_res (map_res (\<lambda>native. dict_get native ''common'' (JStr [])) natives) (\<lambda>items.
     py_join '', '' items)))"

definition field_currency_codes :: "json \<Rightarrow> json result" where
  "field_currency_codes currencies =
     bind_res (dict_keys currencies) (\<lambda>ks. py_join '', '' ks)"

definition field_currency_names :: "json \<Rightarrow> json result" where
  "field_currency_names currencies =
     bind_res (dict_values currencies) (\<lambda>vs.
     bind_res (map_res (\<lambda>v. dict_get v ''name'' (JStr [])) vs) (\<lambda>items.
     py_join '', '' items))"

definition field_currency_symbols :: "json \<Rightarrow> json result" where
  "field_currency_symbols currencies =
     bind_res (dict_values currencies) (\<lambda>vs.
     bind_res (map_res (\<lambda>v. dict_get v ''symbol'' (JStr [])) vs) (\<lambda>items.
     py_join '', '' items))"

definition field_calling_codes :: "json \<Rightarrow> json result" where
  "field_calling_codes idd =
     bind_res (dict_get idd ''suffixes'' JNull) (\<lambda>cond.
     if truthy cond then
       bind_res (dict_get idd ''suffixes'' (JList [])) (\<lambda>sufs.
       bind_res (py_iter sufs) (\<lambda>suffixes.
       bind_res (map_res (\<lambda>suffix.
                   bind_res (dict_get idd ''root'' (JStr [])) (\<lambda>root. py_add root suffix))
                 suffixes) (\<lambda>items.
       py_join '', '' items)))
     else Inr (JStr []))"

definition field_capital :: "json \<Rightarrow> json result" where
  "field_capital country =
     bind_res (dict_get country ''capital'' JNull) (\<lambda>cond.
     if truthy cond then
       bind_res (dict_get country ''capital'' (JList [])) (\<lambda>cap.
       bind_res (py_iter cap) (\<lambda>items.
       py_join '', '' items))
     else Inr (JStr ''Unknown''))"

definition field_languages :: "json \<Rightarrow> json result" where
  "field_languages country =
     bind_res (dict_get country ''languages'' (JDict [])) (\<lambda>langs.
     bind_res (dict_values langs) (\<lambda>items.
     py_join '', '' items))"

definition field_continents :: "json \<Rightarrow> json result" where
  "field_continents country =
     bind_res (dict_get country ''continents'' (JList [])) (\<lambda>conts.
     bind_res (py_iter conts) (\<lambda>items.
     py_join '', '' items))"

text \<open>
  The function itself: the three locals, then the tuple, its entries evaluated
  left to right so that the first entry to raise decides the exception. The
  tuple is returned as the list of its seventeen entries, entry \<open>i\<close> (counted
  from one) at index \<open>i - 1\<close>.
\<close>

definition transform_country :: "json \<Rightarrow> json list result" where
  "transform_country country =
     bind_res (dict_get country ''name'' (JDict [])) (\<lambda>name.
     bind_res (dict_get country ''currencies'' (JDict [])) (\<lambda>currencies.
     bind_res (dict_get country ''idd'' (JDict [])) (\<lambda>idd.
     bind_res (field_common name) (\<lambda>f1.
     bind_res (field_official name) (\<lambda>f2.
     bind_res (field_native_names name) (\<lambda>f3.
     bind_res (field_currency_codes currencies) (\<lambda>f4.
     bind_res (field_currency_names currencies) (\<lambda>f5.
     bind_res (field_currency_symbols currencies) (\<lambda>f6.
     bind_res (field_calling_codes idd) (\<lambda>f7.
     bind_res (field_capital country) (\<lambda>f8.
     bind_res (dict_get country ''region'' JNull) (\<lambda>f9.
     bind_res (dict_get country ''subregion'' JNull) (\<lambda>f10.
     bind_res (field_languages country) (\<lambda>f11.
     bind_res (dict_get country ''area'' (JInt 0)) (\<lambda>f12.
     bind_res (dict_get country ''population'' (JInt 0)) (\<lambda>f13.
     bind_res (field_continents country) (\<lambda>f14.
     bind_res (dict_get country ''independent'' JNull) (\<lambda>f15.
     bind_res (dict_get country ''unMember'' JNull) (\<lambda>f16.
     bind_res (dict_get country ''startOfWeek'' JNull) (\<lambda>f17.
     Inr [f1, f2, f3, f4, f5, f6, f7, f8, f9, f10, f11, f12, f13, f14, f15, f16, f17]
     ))))))))))))))))))))"

section \<open>The collaborators: cache file, remote endpoints, database\<close>

text \<open>
  Everything outside the script is a parameter of the run: what the cache file
  holds, what each endpoint answers, and whether each file and database call
  succeeds. A collaborator that raises does so with \<open>External msg\<close>.
\<close>

datatype cache_file = NoFile | Unreadable string | Cached json

record world =
  cache :: cache_file
  url1_response :: "string + json"
  url2_response :: "string + json"
  cache_write :: "string option"
  db_connect :: "string option"
  cursor_open :: "string option"
  ddl_file :: "string + string"
  ddl_exec :: "string option"
  dml_file :: "string + string"
  dml_exec :: "string option"
  commit_exec :: "string option"
  cursor_close :: "string option"
  conn_close :: "string option"

text \<open>
  What a run does to the outside, in order. A call of a collaborator is recorded
  when it is made, whether or not it then raises.
\<close>

datatype event =
    Print string
  | CacheRead
  | HttpGet string
  | CacheWrite json
  | DbConnect
  | CursorOpen
  | Execute string
  | ExecuteMany string "json list list"
  | Commit
  | CursorClose
  | ConnClose

type_synonym 'a io = "'a result \<times> event list"

definition return_io :: "'a \<Rightarrow> 'a io" where
  "return_io v = (Inr v, [])"

definition raise_io :: "exn \<Rightarrow> 'a io" where
  "raise_io e = (Inl e, [])"

definition emit :: "event \<Rightarrow> unit io" where
  "emit ev = (Inr (), [ev])"

definition lift_res :: "'a result \<Rightarrow> 'a io" where
  "lift_res r = (r, [])"

definition bind_io :: "'a io \<Rightarrow> ('a \<Rightarrow> 'b io) \<Rightarrow> 'b io" where
  "bind_io m f =
     (case m of
        (Inl e, tr) \<Rightarrow> (Inl e, tr)
      | (Inr v, tr) \<Rightarrow> (case f v of (r, tr') \<Rightarrow> (r, tr @ tr')))"

text \<open>A call of a collaborator: the event, then its outcome.\<close>

definition ext_call :: "event \<Rightarrow> string option \<Rightarrow> unit io" where
  "ext_call ev outcome =
     (case outcome of None \<Rightarrow> (Inr (), [ev]) | Some msg \<Rightarrow> (Inl (External msg), [ev]))"

text \<open>Reading a file into a string (\<^verbatim>\<open>with open(..) as f: sql = f.read()\<close>).\<close>

definition read_file :: "string + string \<Rightarrow> string io" where
  "read_file outcome =
     (case outcome of Inl msg \<Rightarrow> (Inl (External msg), []) | Inr text \<Rightarrow> (Inr text, []))"

section \<open>fetch\_country\_data\<close>

text \<open>
  \<^verbatim>\<open>{**country1, **country2}\<close>: both operands must be mappings (TypeError
  otherwise); the new dict holds the items of the first, then the items of the
  second are stored into it in order, so a key already there keeps its place
  and takes the second value, and a new key goes to the end.
\<close>

fun dict_items :: "json \<Rightarrow> (string \<times> json) list result" where
  "dict_items (JDict kvs) = Inr kvs"
| "dict_items _ = Inl TypeError"

definition dict_merge :: "(string \<times> json) list \<Rightarrow> (string \<times> json) list \<Rightarrow> (string \<times> json) list" where
  "dict_merge a b = fold (\<lambda>kv. AList.update (fst kv) (snd kv)) b a"

definition merge_country :: "json \<Rightarrow> json \<Rightarrow> json result" where
  "merge_country country1 country2 =
     bind_res (dict_items country1) (\<lambda>a.
     bind_res (dict_items country2) (\<lambda>b.
     Inr (JDict (dict_merge a b))))"

text \<open>
  The loop of lines 47 to 50 over the pairs that \<^verbatim>\<open>zip\<close> yields, with
  \<open>merged_data\<close> as the accumulator.
\<close>

fun merge_loop :: "(json \<times> json) list \<Rightarrow> json list \<Rightarrow> json list result" where
  "merge_loop [] merged_data = Inr merged_data"
| "merge_loop ((country1, country2) # rest) merged_data =
     bind_res (merge_country country1 country2) (\<lambda>merged_country.
     merge_loop rest (merged_data @ [merged_country]))"

text \<open>
  The \<^verbatim>\<open>try\<close> block of lines 38 to 42. It never raises: the handler prints and
  falls through. What it leaves behind is the two locals, each bound
  (\<open>Some\<close>) or not (\<open>None\<close>): the second request is not made when the first
  raises, and an assignment whose right-hand side raises binds nothing.
\<close>

definition fetch_try :: "world \<Rightarrow> (json option \<times> json option) io" where
  "fetch_try w =
     (case url1_response w of
        Inl msg \<Rightarrow>
          (Inr (None, None), [HttpGet ''url1'', Print ''Failed to fetch data:''])
      | Inr r1 \<Rightarrow>
          (case url2_response w of
             Inl msg \<Rightarrow>
               (Inr (Some r1, None),
                [HttpGet ''url1'', HttpGet ''url2'', Print ''Failed to fetch data:''])
           | Inr r2 \<Rightarrow>
               (Inr (Some r1, Some r2), [HttpGet ''url1'', HttpGet ''url2''])))"

text \<open>Reading a local variable: an unbound one raises UnboundLocalError.\<close>

definition read_local :: "json option \<Rightarrow> json result" where
  "read_local var = (case var of None \<Rightarrow> Inl UnboundLocalError | Some v \<Rightarrow> Inr v)"

definition fetch_country_data :: "world \<Rightarrow> json io" where
  "fetch_country_data w =
     bind_io (fetch_try w) (\<lambda>(response1, response2).
     bind_io (lift_res (read_local response1)) (\<lambda>r1.
     bind_io (lift_res (read_local response2)) (\<lambda>r2.
     bind_io (lift_res (py_iter r1)) (\<lambda>xs.
     bind_io (lift_res (py_iter r2)) (\<lambda>ys.
     bind_io (lift_res (merge_loop (zip xs ys) [])) (\<lambda>merged_data.
     bind_io (ext_call (CacheWrite (JList merged_data)) (cache_write w)) (\<lambda>_.
     bind_io (emit (Print ''Data saved to countries_raw.json'')) (\<lambda>_.
     return_io (JList merged_data)))))))))"

section \<open>The cache adapter, the persistence adapter and main\<close>

text \<open>
  \<open>load_country_data_from_json\<close> returns the parsed file, or \<^verbatim>\<open>None\<close> (here
  \<open>JNull\<close>) when the file is missing or cannot be read or parsed. It never
  raises.
\<close>

definition load_country_data_from_json :: "world \<Rightarrow> json io" where
  "load_country_data_from_json w =
     (case cache w of
        NoFile \<Rightarrow> (Inr JNull, [Print ''JSON file countries_raw.json not found''])
      | Unreadable msg \<Rightarrow> (Inr JNull, [CacheRead, Print ''Failed to load JSON:''])
      | Cached data \<Rightarrow> (Inr data, [CacheRead]))"

text \<open>\<open>connect_db\<close> returns the connection, or \<^verbatim>\<open>None\<close> when connecting raises.\<close>

datatype connection = Connection

definition connect_db :: "world \<Rightarrow> connection option io" where
  "connect_db w =
     (case db_connect w of
        None \<Rightarrow> (Inr (Some Connection), [DbConnect, Print ''Connected to database.''])
      | Some msg \<Rightarrow> (Inr None, [DbConnect, Print ''Database connection failed:'']))"

definition create_table :: "world \<Rightarrow> unit io" where
  "create_table w =
     bind_io (read_file (ddl_file w)) (\<lambda>sql.
     bind_io (ext_call (Execute sql) (ddl_exec w)) (\<lambda>_.
     emit (Print ''Executed SQL'')))"

definition insert_countries :: "world \<Rightarrow> json \<Rightarrow> unit io" where
  "insert_countries w countries =
     bind_io (lift_res (py_iter countries)) (\<lambda>cs.
     bind_io (lift_res (map_res transform_country cs)) (\<lambda>records.
     bind_io (read_file (dml_file w)) (\<lambda>sql.
     bind_io (ext_call (ExecuteMany sql records) (dml_exec w)) (\<lambda>_.
     emit (Print ''Inserted records'')))))"

definition USE_CACHED :: bool where
  "USE_CACHED = True"

text \<open>\<^verbatim>\<open>x is None\<close>.\<close>

fun is_None :: "json \<Rightarrow> bool" where
  "is_None JNull = True"
| "is_None _ = False"

definition main :: "world \<Rightarrow> unit io" where
  "main w =
     bind_io (if USE_CACHED then load_country_data_from_json w else return_io JNull) (\<lambda>cached.
     bind_io (if is_None cached
              then bind_io (emit (Print ''Fetching fresh data from API...'')) (\<lambda>_.
                   fetch_country_data w)
              else return_io cached) (\<lambda>countries.
     bind_io (if \<not> truthy countries then raise_io ValueError else return_io ()) (\<lambda>_.
     bind_io (connect_db w) (\<lambda>conn.
     bind_io (if conn = None then raise_io ConnectionError else return_io ()) (\<lambda>_.
     bind_io (ext_call CursorOpen (cursor_open w)) (\<lambda>_.
     bind_io (create_table w) (\<lambda>_.
     bind_io (insert_countries w countries) (\<lambda>_.
     bind_io (ext_call Commit (commit_exec w)) (\<lambda>_.
     bind_io (ext_call CursorClose (cursor_close w)) (\<lambda>_.
     bind_io (ext_call ConnClose (conn_close w)) (\<lambda>_.
     emit (Print ''All done!''))))))))))))"

section \<open>The documented shape of a raw country record\<close>

text \<open>
  The data model documents the nested fields that \<open>transform_country\<close> reads:
  \<open>name\<close> a mapping whose \<open>nativeName\<close> maps language codes to mappings with a
  string \<open>common\<close>; \<open>currencies\<close> a mapping from codes to mappings with strings
  \<open>name\<close> and \<open>symbol\<close>; \<open>idd\<close> a mapping with a string \<open>root\<close> and a sequence of
  strings \<open>suffixes\<close>; \<open>capital\<close> and \<open>continents\<close> sequences of strings;
  \<open>languages\<close> a mapping to strings. \<open>documented_shape\<close> says that each of
  these fields, at every level, is either absent or of that shape. The scalar
  fields and \<open>name.common\<close>, \<open>name.official\<close> are passed through and are not
  constrained.
\<close>

definition opt_key :: "(string \<times> json) list \<Rightarrow> string \<Rightarrow> (json \<Rightarrow> bool) \<Rightarrow> bool" where
  "opt_key kvs k P = (case map_of kvs k of None \<Rightarrow> True | Some v \<Rightarrow> P v)"

fun is_str :: "json \<Rightarrow> bool" where
  "is_str (JStr s) = True"
| "is_str _ = False"

fun is_str_list :: "json \<Rightarrow> bool" where
  "is_str_list (JList xs) = list_all is_str xs"
| "is_str_list _ = False"

fun is_mapping_of :: "(json \<Rightarrow> bool) \<Rightarrow> json \<Rightarrow> bool" where
  "is_mapping_of P (JDict kvs) = list_all (\<lambda>kv. P (snd kv)) kvs"
| "is_mapping_of P _ = False"

fun native_entry_shape :: "json \<Rightarrow> bool" where
  "native_entry_shape (JDict d) = opt_key d ''common'' is_str"
| "native_entry_shape _ = False"

fun name_shape :: "json \<Rightarrow> bool" where
  "name_shape (JDict nm) = opt_key nm ''nativeName'' (is_mapping_of native_entry_shape)"
| "name_shape _ = False"

fun currency_entry_shape :: "json \<Rightarrow> bool" where
  "currency_entry_shape (JDict d) = (opt_key d ''name'' is_str \<and> opt_key d ''symbol'' is_str)"
| "currency_entry_shape _ = False"

fun idd_shape :: "json \<Rightarrow> bool" where
  "idd_shape (JDict d) = (opt_key d ''root'' is_str \<and> opt_key d ''suffixes'' is_str_list)"
| "idd_shape _ = False"

definition documented_shape :: "(string \<times> json) list \<Rightarrow> bool" where
  "documented_shape c =
     (opt_key c ''name'' name_shape \<and>
      opt_key c ''currencies'' (is_mapping_of currency_entry_shape) \<and>
      opt_key c ''idd'' idd_shape \<and>
      opt_key c ''capital'' is_str_list \<and>
      opt_key c ''languages'' (is_mapping_of is_str) \<and>
      opt_key c ''continents'' is_str_list)"

section \<open>What an entry contributes to a joined field\<close>

text \<open>
  The text that one entry of \<open>name.nativeName\<close> or of \<open>currencies\<close> puts into a
  joined field: the string under its inner key, and the empty string when the
  entry has no such key.
\<close>

fun inner_text :: "string \<Rightarrow> json \<Rightarrow> string" where
  "inner_text k (JDict d) = (case map_of d k of Some (JStr s) \<Rightarrow> s | _ \<Rightarrow> [])"
| "inner_text k _ = []"

text \<open>
  The database part of \<open>main\<close> (lines 269 to 284) on its own, as a function of
  the records that \<open>main\<close> holds when it gets there. Lemma \<open>main_database_part\<close>
  shows that \<open>main\<close> is the acquisition of the records, the check that they are
  not empty, and then these steps.
\<close>

definition main_database_steps :: "world \<Rightarrow> json \<Rightarrow> unit io" where
  "main_database_steps w countries =
     bind_io (connect_db w) (\<lambda>conn.
     bind_io (if conn = None then raise_io ConnectionError else return_io ()) (\<lambda>_.
     bind_io (ext_call CursorOpen (cursor_open w)) (\<lambda>_.
     bind_io (create_table w) (\<lambda>_.
     bind_io (insert_countries w countries) (\<lambda>_.
     bind_io (ext_call Commit (commit_exec w)) (\<lambda>_.
     bind_io (ext_call CursorClose (cursor_close w)) (\<lambda>_.
     bind_io (ext_call ConnClose (conn_close w)) (\<lambda>_.
     emit (Print ''All done!'')))))))))"

section \<open>Runs used as examples, and a classification of events\<close>

text \<open>
  A run in which every collaborator succeeds: the cache holds one country, each
  endpoint answers with one record, and every file and database call goes
  through. The concrete runs below are variations of it.
\<close>

definition happy_world :: world where
  "happy_world =
     \<lparr> cache = Cached (JList [JDict [(''name'', JDict [(''common'', JStr ''Ghana'')])]]),
       url1_response = Inr (JList [JDict [(''name'', JDict [(''common'', JStr ''Ghana'')])]]),
       url2_response = Inr (JList [JDict [(''region'', JStr ''Africa'')]]),
       cache_write = None,
       db_connect = None,
       cursor_open = None,
       ddl_file = Inr ''CREATE TABLE IF NOT EXISTS countries'',
       ddl_exec = None,
       dml_file = Inr ''INSERT INTO countries VALUES'',
       dml_exec = None,
       commit_exec = None,
       cursor_close = None,
       conn_close = None \<rparr>"

text \<open>The events that touch the database.\<close>

fun db_event :: "event \<Rightarrow> bool" where
  "db_event DbConnect = True"
| "db_event CursorOpen = True"
| "db_event (Execute sql) = True"
| "db_event (ExecuteMany sql rows) = True"
| "db_event Commit = True"
| "db_event CursorClose = True"
| "db_event ConnClose = True"
| "db_event _ = False"

section \<open>Basic facts about the primitives\<close>

lemma bind_res_Inr_iff: "(bind_res m f = Inr r) = (\<exists>v. m = Inr v \<and> f v = Inr r)"
  by (cases m) (simp_all add: bind_res_def)

lemma bind_res_simps [simp]:
  "bind_res (Inl e) f = Inl e"
  "bind_res (Inr v) f = f v"
  by (simp_all add: bind_res_def)

lemma map_res_as_str_JStr: "map_res as_str (map JStr ss) = Inr ss"
  by (induction ss) simp_all

lemma py_join_strs: "py_join sep (map JStr ss) = Inr (JStr (join_sep sep ss))"
  by (simp add: py_join_def map_res_as_str_JStr)

lemma map_res_Inr_map:
  "(\<And>x. x \<in> set xs \<Longrightarrow> f x = Inr (g x)) \<Longrightarrow> map_res f xs = Inr (map g xs)"
  by (induction xs) simp_all

section \<open>The capital and calling-code entries\<close>

lemma field_capital_absent:
  "map_of c ''capital'' = None \<or> map_of c ''capital'' = Some (JList []) \<Longrightarrow>
   field_capital (JDict c) = Inr (JStr ''Unknown'')"
  by (auto simp: field_capital_def)

lemma field_capital_strs:
  "map_of c ''capital'' = Some (JList (map JStr ss)) \<Longrightarrow> ss \<noteq> [] \<Longrightarrow>
   field_capital (JDict c) = Inr (JStr (join_sep '', '' ss))"
  by (simp add: field_capital_def py_join_strs)

lemma field_calling_codes_absent:
  "map_of d ''suffixes'' = None \<or> map_of d ''suffixes'' = Some (JList []) \<Longrightarrow>
   field_calling_codes (JDict d) = Inr (JStr [])"
  by (auto simp: field_calling_codes_def)

text \<open>
  With a non-empty list of string suffixes the entry can only be built when
  \<open>idd.root\<close> (or its default, the empty string) is a string, and it is then the
  join of root + suffix.
\<close>

lemma field_calling_codes_strs:
  assumes "map_of d ''suffixes'' = Some (JList (map JStr ss))" "ss \<noteq> []"
    and "field_calling_codes (JDict d) = Inr v"
  shows "\<exists>r. (case map_of d ''root'' of None \<Rightarrow> JStr [] | Some x \<Rightarrow> x) = JStr r \<and>
             v = JStr (join_sep '', '' (map (\<lambda>s. r @ s) ss))"
proof -
  obtain s rest where ss: "ss = s # rest" using assms(2) by (cases ss) auto
  let ?root = "case map_of d ''root'' of None \<Rightarrow> JStr [] | Some x \<Rightarrow> x"
  from assms(1,3) ss obtain items where
    items: "map_res (\<lambda>suffix. py_add ?root suffix) (map JStr ss) = Inr items"
    by (auto simp: field_calling_codes_def bind_res_Inr_iff)
  then obtain y where "py_add ?root (JStr s) = Inr y"
    by (auto simp: ss bind_res_Inr_iff)
  then obtain r where r: "?root = JStr r"
    by (cases ?root) (auto split: option.splits)
  have "map_res (\<lambda>suffix. py_add ?root suffix) (map JStr ss) =
        Inr (map (\<lambda>x. JStr (r @ (case x of JStr t \<Rightarrow> t))) (map JStr ss))"
    by (rule map_res_Inr_map) (auto simp: r)
  then have "map_res (\<lambda>suffix. py_add ?root suffix) (map JStr ss) =
             Inr (map JStr (map (\<lambda>s. r @ s) ss))"
    by (simp add: comp_def)
  with assms(1,3) ss have "v = JStr (join_sep '', '' (map (\<lambda>s. r @ s) ss))"
    by (simp add: field_calling_codes_def py_join_strs del: map_map list.map)
  with r show ?thesis by blast
qed

text \<open>
  A returned tuple is the list of its seventeen entries, each the value of its
  own expression.
\<close>

lemma transform_country_Inr_iff:
  "(transform_country (JDict c) = Inr row) =
   (\<exists>f1 f2 f3 f4 f5 f6 f7 f8 f11 f14.
      field_common (case map_of c ''name'' of None \<Rightarrow> JDict [] | Some v \<Rightarrow> v) = Inr f1 \<and>
      field_official (case map_of c ''name'' of None \<Rightarrow> JDict [] | Some v \<Rightarrow> v) = Inr f2 \<and>
      field_native_names (case map_of c ''name'' of None \<Rightarrow> JDict [] | Some v \<Rightarrow> v) = Inr f3 \<and>
      field_currency_codes (case map_of c ''currencies'' of None \<Rightarrow> JDict [] | Some v \<Rightarrow> v) = Inr f4 \<and>
      field_currency_names (case map_of c ''currencies'' of None \<Rightarrow> JDict [] | Some v \<Rightarrow> v) = Inr f5 \<and>
      field_currency_symbols (case map_of c ''currencies'' of None \<Rightarrow> JDict [] | Some v \<Rightarrow> v) = Inr f6 \<and>
      field_calling_codes (case map_of c ''idd'' of None \<Rightarrow> JDict [] | Some v \<Rightarrow> v) = Inr f7 \<and>
      field_capital (JDict c) = Inr f8 \<and>
      field_languages (JDict c) = Inr f11 \<and>
      field_continents (JDict c) = Inr f14 \<and>
      row = [f1, f2, f3, f4, f5, f6, f7, f8,
             (case map_of c ''region'' of None \<Rightarrow> JNull | Some v \<Rightarrow> v),
             (case map_of c ''subregion'' of None \<Rightarrow> JNull | Some v \<Rightarrow> v),
             f11,
             (case map_of c ''area'' of None \<Rightarrow> JInt 0 | Some v \<Rightarrow> v),
             (case map_of c ''population'' of None \<Rightarrow> JInt 0 | Some v \<Rightarrow> v),
             f14,
             (case map_of c ''independent'' of None \<Rightarrow> JNull | Some v \<Rightarrow> v),
             (case map_of c ''unMember'' of None \<Rightarrow> JNull | Some v \<Rightarrow> v),
             (case map_of c ''startOfWeek'' of None \<Rightarrow> JNull | Some v \<Rightarrow> v)])"
  unfolding transform_country_def
  by (simp add: bind_res_Inr_iff) blast

section \<open>Records of the documented shape\<close>

lemma is_str_conv: "is_str v = (\<exists>s. v = JStr s)"
  by (cases v) simp_all

lemma list_all_is_str: "list_all is_str xs \<Longrightarrow> \<exists>ss. xs = map JStr ss"
proof (induction xs)
  case Nil
  then show ?case by simp
next
  case (Cons x xs)
  then obtain s ss where "x = JStr s" "xs = map JStr ss"
    by (auto simp: is_str_conv)
  then have "x # xs = map JStr (s # ss)" by simp
  then show ?case by (rule exI)
qed

lemma is_str_list_conv: "is_str_list v \<Longrightarrow> \<exists>ss. v = JList (map JStr ss)"
  by (cases v) (auto dest: list_all_is_str)

lemma py_join_ok: "list_all is_str xs \<Longrightarrow> \<exists>s. py_join sep xs = Inr (JStr s)"
  by (auto dest!: list_all_is_str simp: py_join_strs)

lemma map_res_ok:
  "list_all P xs \<Longrightarrow> (\<And>x. P x \<Longrightarrow> \<exists>y. f x = Inr y \<and> Q y) \<Longrightarrow>
   \<exists>ys. map_res f xs = Inr ys \<and> list_all Q ys"
proof (induction xs)
  case Nil
  then show ?case by simp
next
  case (Cons x xs)
  from Cons.prems(1) have px: "P x" and pxs: "list_all P xs" by simp_all
  from Cons.prems(2)[OF px] obtain y where y: "f x = Inr y" "Q y" by blast
  from Cons.IH[OF pxs Cons.prems(2)] obtain ys where ys: "map_res f xs = Inr ys" "list_all Q ys"
    by blast
  from y ys show ?case by simp
qed

lemma dict_get_opt_str:
  "native_entry_shape v \<Longrightarrow> \<exists>y. dict_get v ''common'' (JStr []) = Inr y \<and> is_str y"
  by (cases v) (auto simp: opt_key_def split: option.splits)

lemma dict_get_currency:
  "currency_entry_shape v \<Longrightarrow> \<exists>y. dict_get v ''name'' (JStr []) = Inr y \<and> is_str y"
  "currency_entry_shape v \<Longrightarrow> \<exists>y. dict_get v ''symbol'' (JStr []) = Inr y \<and> is_str y"
  by (cases v; auto simp: opt_key_def split: option.splits)+

lemma list_all_snd: "list_all (\<lambda>kv. P (snd kv)) kvs = list_all P (map snd kvs)"
  by (simp add: list_all_iff)

lemma native_names_ok:
  assumes "name_shape nm" shows "\<exists>v. field_native_names nm = Inr v"
proof -
  obtain d where d: "nm = JDict d" using assms by (cases nm) auto
  show ?thesis
  proof (cases "map_of d ''nativeName''")
    case None
    then show ?thesis by (simp add: d field_native_names_def py_join_def)
  next
    case (Some nn)
    with assms d have "is_mapping_of native_entry_shape nn" by (simp add: opt_key_def)
    then obtain es where es: "nn = JDict es" "list_all native_entry_shape (map snd es)"
      by (cases nn) (auto simp: list_all_snd)
    from map_res_ok[OF es(2), of "\<lambda>native. dict_get native ''common'' (JStr [])" is_str]
    obtain ys where "map_res (\<lambda>native. dict_get native ''common'' (JStr [])) (map snd es) = Inr ys"
      "list_all is_str ys" using dict_get_opt_str by blast
    then show ?thesis using py_join_ok[of ys "'', ''"]
      by (auto simp: d Some es field_native_names_def)
  qed
qed

lemma currency_fields_ok:
  assumes "is_mapping_of currency_entry_shape cur"
  shows "\<exists>v. field_currency_codes cur = Inr v"
    and "\<exists>v. field_currency_names cur = Inr v"
    and "\<exists>v. field_currency_symbols cur = Inr v"
proof -
  obtain es where es: "cur = JDict es" "list_all currency_entry_shape (map snd es)"
    using assms by (cases cur) (auto simp: list_all_snd)
  have "map (\<lambda>kv. JStr (fst kv)) es = map JStr (map fst es)" by simp
  then show "\<exists>v. field_currency_codes cur = Inr v"
    by (simp add: es field_currency_codes_def py_join_strs del: map_map)
  from map_res_ok[OF es(2), of "\<lambda>v. dict_get v ''name'' (JStr [])" is_str]
  obtain ys where "map_res (\<lambda>v. dict_get v ''name'' (JStr [])) (map snd es) = Inr ys"
      "list_all is_str ys" using dict_get_currency(1) by blast
  then show "\<exists>v. field_currency_names cur = Inr v" using py_join_ok[of ys "'', ''"]
    by (auto simp: es field_currency_names_def)
  from map_res_ok[OF es(2), of "\<lambda>v. dict_get v ''symbol'' (JStr [])" is_str]
  obtain zs where "map_res (\<lambda>v. dict_get v ''symbol'' (JStr [])) (map snd es) = Inr zs"
      "list_all is_str zs" using dict_get_currency(2) by blast
  then show "\<exists>v. field_currency_symbols cur = Inr v" using py_join_ok[of zs "'', ''"]
    by (auto simp: es field_currency_symbols_def)
qed

lemma calling_codes_ok:
  assumes "idd_shape idd" shows "\<exists>v. field_calling_codes idd = Inr v"
proof -
  obtain d where d: "idd = JDict d" "opt_key d ''root'' is_str" "opt_key d ''suffixes'' is_str_list"
    using assms by (cases idd) auto
  from d(2) obtain r where r: "(case map_of d ''root'' of None \<Rightarrow> JStr [] | Some x \<Rightarrow> x) = JStr r"
    by (auto simp: opt_key_def is_str_conv split: option.splits)
  show ?thesis
  proof (cases "map_of d ''suffixes''")
    case None
    then show ?thesis by (simp add: d field_calling_codes_absent)
  next
    case (Some sufs)
    with d(3) obtain ss where ss: "sufs = JList (map JStr ss)"
      by (auto simp: opt_key_def dest: is_str_list_conv)
    have "map_res (\<lambda>suffix. py_add (JStr r) suffix) (map JStr ss) =
          Inr (map (\<lambda>x. JStr (r @ (case x of JStr t \<Rightarrow> t))) (map JStr ss))"
      by (rule map_res_Inr_map) auto
    then have "map_res (\<lambda>suffix. py_add (JStr r) suffix) (map JStr ss) =
               Inr (map JStr (map (\<lambda>s. r @ s) ss))"
      by (simp add: comp_def)
    then show ?thesis using r
      by (simp add: d Some ss field_calling_codes_def py_join_strs del: map_map)
  qed
qed

lemma capital_ok:
  assumes "opt_key c ''capital'' is_str_list" shows "\<exists>v. field_capital (JDict c) = Inr v"
proof (cases "map_of c ''capital''")
  case None
  then show ?thesis by (simp add: field_capital_absent)
next
  case (Some cap)
  with assms obtain ss where "cap = JList (map JStr ss)"
    by (auto simp: opt_key_def dest: is_str_list_conv)
  with Some show ?thesis
    by (cases "ss = []") (simp_all add: field_capital_absent field_capital_strs)
qed

lemma continents_ok:
  assumes "opt_key c ''continents'' is_str_list" shows "\<exists>v. field_continents (JDict c) = Inr v"
proof (cases "map_of c ''continents''")
  case None
  then show ?thesis by (simp add: field_continents_def py_join_def)
next
  case (Some x)
  with assms obtain ss where "x = JList (map JStr ss)"
    by (auto simp: opt_key_def dest: is_str_list_conv)
  with Some show ?thesis by (simp add: field_continents_def py_join_strs)
qed

lemma languages_ok:
  assumes "opt_key c ''languages'' (is_mapping_of is_str)"
  shows "\<exists>v. field_languages (JDict c) = Inr v"
proof (cases "map_of c ''languages''")
  case None
  then show ?thesis by (simp add: field_languages_def py_join_def)
next
  case (Some x)
  with assms obtain es where "x = JDict es" "list_all is_str (map snd es)"
    by (cases x) (auto simp: opt_key_def list_all_snd)
  with Some show ?thesis using py_join_ok[of "map snd es" "'', ''"]
    by (auto simp: field_languages_def)
qed

lemma join_sep_replicate_Nil:
  "join_sep sep (replicate n []) = concat (replicate (n - 1) sep)"
proof (induction n)
  case 0
  then show ?case by simp
next
  case (Suc n)
  then show ?case by (cases n) simp_all
qed

lemma join_missing_inner_key:
  assumes "list_all (\<lambda>v. \<exists>d. v = JDict d \<and> map_of d k = None) vs"
  shows "bind_res (map_res (\<lambda>v. dict_get v k (JStr [])) vs) (py_join '', '') =
         Inr (JStr (concat (replicate (length vs - 1) '', '')))"
proof -
  have "map_res (\<lambda>v. dict_get v k (JStr [])) vs = Inr (map (\<lambda>v. JStr []) vs)"
    using assms by (intro map_res_Inr_map) (auto simp: list_all_iff)
  moreover have "map (\<lambda>v. JStr []) vs = map JStr (replicate (length vs) [])"
    by (simp add: map_replicate_const)
  ultimately show ?thesis
    by (simp add: py_join_strs join_sep_replicate_Nil del: map_replicate)
qed

lemmas field_defs = field_common_def field_official_def
      field_native_names_def field_currency_codes_def field_currency_names_def
      field_currency_symbols_def field_calling_codes_def field_capital_def
      field_languages_def field_continents_def

section \<open>Claims about transform\_country\<close>

text \<open>
  Claim C1. Whenever \<open>transform_country\<close> returns a tuple for a record, its 8th
  entry (index 7) is the string "Unknown" if the key \<open>capital\<close> is absent or maps
  to the empty list, and is the elements joined with ", " if \<open>capital\<close> is a
  non-empty list of strings.
\<close>

theorem transform_country_capital:
  assumes "transform_country (JDict c) = Inr row"
  shows "(map_of c ''capital'' = None \<or> map_of c ''capital'' = Some (JList [])
            \<longrightarrow> row ! 7 = JStr ''Unknown'') \<and>
         (\<forall>ss. map_of c ''capital'' = Some (JList (map JStr ss)) \<and> ss \<noteq> []
            \<longrightarrow> row ! 7 = JStr (join_sep '', '' ss))"
  using assms
  by (auto simp: transform_country_Inr_iff field_capital_absent field_capital_strs)

theorem transform_country_capital_witness:
  "transform_country (JDict [(''region'', JStr ''Africa'')]) =
     Inr [JNull, JNull, JStr [], JStr [], JStr [], JStr [], JStr [], JStr ''Unknown'',
          JStr ''Africa'', JNull, JStr [], JInt 0, JInt 0, JStr [], JNull, JNull, JNull] \<and>
   transform_country (JDict [(''capital'', JList [JStr ''Pretoria'', JStr ''Cape Town''])]) =
     Inr [JNull, JNull, JStr [], JStr [], JStr [], JStr [], JStr [],
          JStr ''Pretoria, Cape Town'',
          JNull, JNull, JStr [], JInt 0, JInt 0, JStr [], JNull, JNull, JNull]"
proof -
  let ?c1 = "[(''region'', JStr ''Africa'')]"
  let ?c2 = "[(''capital'', JList [JStr ''Pretoria'', JStr ''Cape Town''])]"
  have r1: "transform_country (JDict ?c1) =
     Inr [JNull, JNull, JStr [], JStr [], JStr [], JStr [], JStr [], JStr ''Unknown'',
          JStr ''Africa'', JNull, JStr [], JInt 0, JInt 0, JStr [], JNull, JNull, JNull]"
    by (simp add: transform_country_def field_defs py_join_def)
  have r2: "transform_country (JDict ?c2) =
     Inr [JNull, JNull, JStr [], JStr [], JStr [], JStr [], JStr [],
          JStr ''Pretoria, Cape Town'',
          JNull, JNull, JStr [], JInt 0, JInt 0, JStr [], JNull, JNull, JNull]"
    by (simp add: transform_country_def field_defs py_join_def)
  note a = transform_country_capital[OF r1] transform_country_capital[OF r2]
  from a r1 r2 show ?thesis by simp
qed

text \<open>
  Claim C2. Whenever \<open>transform_country\<close> returns a tuple for a record, its 7th
  entry (index 6) is the empty string, and so not "Unknown", if \<open>idd\<close> is absent
  or is a mapping in which \<open>suffixes\<close> is absent or the empty list; if
  \<open>idd.suffixes\<close> is a non-empty list of strings, then \<open>idd.root\<close> (the empty
  string when absent) is a string and the entry is the concatenations
  root + suffix joined with ", ".
\<close>

theorem transform_country_calling_codes:
  assumes "transform_country (JDict c) = Inr row"
  shows "(map_of c ''idd'' = None \<or>
          (\<exists>d. map_of c ''idd'' = Some (JDict d) \<and>
               (map_of d ''suffixes'' = None \<or> map_of d ''suffixes'' = Some (JList [])))
            \<longrightarrow> row ! 6 = JStr [] \<and> row ! 6 \<noteq> JStr ''Unknown'') \<and>
         (\<forall>d ss. map_of c ''idd'' = Some (JDict d) \<and>
                 map_of d ''suffixes'' = Some (JList (map JStr ss)) \<and> ss \<noteq> []
            \<longrightarrow> (\<exists>root. (case map_of d ''root'' of None \<Rightarrow> JStr [] | Some x \<Rightarrow> x) = JStr root \<and>
                  row ! 6 = JStr (join_sep '', '' (map (\<lambda>suffix. root @ suffix) ss))))"
proof -
  let ?idd = "case map_of c ''idd'' of None \<Rightarrow> JDict [] | Some v \<Rightarrow> v"
  from assms have f7: "field_calling_codes ?idd = Inr (row ! 6)"
    by (auto simp: transform_country_Inr_iff)
  have absent: "row ! 6 = JStr []"
    if "map_of c ''idd'' = None \<or>
        (\<exists>d. map_of c ''idd'' = Some (JDict d) \<and>
             (map_of d ''suffixes'' = None \<or> map_of d ''suffixes'' = Some (JList [])))"
  proof -
    from that obtain d where "?idd = JDict d"
      "map_of d ''suffixes'' = None \<or> map_of d ''suffixes'' = Some (JList [])"
      by auto
    with f7 field_calling_codes_absent[of d] show ?thesis by simp
  qed
  have present: "\<exists>root. (case map_of d ''root'' of None \<Rightarrow> JStr [] | Some x \<Rightarrow> x) = JStr root \<and>
                  row ! 6 = JStr (join_sep '', '' (map (\<lambda>suffix. root @ suffix) ss))"
    if "map_of c ''idd'' = Some (JDict d) \<and>
        map_of d ''suffixes'' = Some (JList (map JStr ss)) \<and> ss \<noteq> []" for d ss
  proof -
    from that f7 have "field_calling_codes (JDict d) = Inr (row ! 6)" by simp
    with that show ?thesis using field_calling_codes_strs[of d ss "row ! 6"] by blast
  qed
  from absent present show ?thesis by simp
qed

theorem transform_country_calling_codes_witness:
  "transform_country (JDict [(''idd'', JDict [(''root'', JStr ''+2'')])]) =
     Inr [JNull, JNull, JStr [], JStr [], JStr [], JStr [], JStr [], JStr ''Unknown'',
          JNull, JNull, JStr [], JInt 0, JInt 0, JStr [], JNull, JNull, JNull] \<and>
   transform_country
     (JDict [(''idd'', JDict [(''root'', JStr ''+2''), (''suffixes'', JList [JStr ''7'', JStr ''68''])])]) =
     Inr [JNull, JNull, JStr [], JStr [], JStr [], JStr [], JStr ''+27, +268'', JStr ''Unknown'',
          JNull, JNull, JStr [], JInt 0, JInt 0, JStr [], JNull, JNull, JNull]"
proof -
  let ?c1 = "[(''idd'', JDict [(''root'', JStr ''+2'')])]"
  let ?c2 = "[(''idd'', JDict [(''root'', JStr ''+2''), (''suffixes'', JList [JStr ''7'', JStr ''68''])])]"
  have r1: "transform_country (JDict ?c1) =
     Inr [JNull, JNull, JStr [], JStr [], JStr [], JStr [], JStr [], JStr ''Unknown'',
          JNull, JNull, JStr [], JInt 0, JInt 0, JStr [], JNull, JNull, JNull]"
    by (simp add: transform_country_def field_defs py_join_def)
  have r2: "transform_country (JDict ?c2) =
     Inr [JNull, JNull, JStr [], JStr [], JStr [], JStr [], JStr ''+27, +268'', JStr ''Unknown'',
          JNull, JNull, JStr [], JInt 0, JInt 0, JStr [], JNull, JNull, JNull]"
    by (simp add: transform_country_def field_defs py_join_def)
  note a = transform_country_calling_codes[OF r1] transform_country_calling_codes[OF r2]
  from a r1 r2 show ?thesis by simp
qed

text \<open>
  Claim C6. For every record whose documented nested fields are each absent or
  of the documented shape, \<open>transform_country\<close> raises nothing and returns a
  tuple of seventeen entries; absent nested mappings are read as empty ones.
\<close>

theorem transform_country_total_on_documented_shape:
  assumes "documented_shape c"
  shows "\<exists>row. transform_country (JDict c) = Inr row \<and> length row = 17"
proof -
  let ?name = "case map_of c ''name'' of None \<Rightarrow> JDict [] | Some v \<Rightarrow> v"
  let ?cur = "case map_of c ''currencies'' of None \<Rightarrow> JDict [] | Some v \<Rightarrow> v"
  let ?idd = "case map_of c ''idd'' of None \<Rightarrow> JDict [] | Some v \<Rightarrow> v"
  have n: "name_shape ?name" and cu: "is_mapping_of currency_entry_shape ?cur"
    and i: "idd_shape ?idd"
    using assms by (auto simp: documented_shape_def opt_key_def split: option.splits)
  from n obtain nm where nm: "?name = JDict nm" by (cases ?name) auto
  have f12: "\<exists>v. field_common ?name = Inr v" "\<exists>v. field_official ?name = Inr v"
    by (simp_all add: nm field_common_def field_official_def)
  note rest = native_names_ok[OF n] currency_fields_ok[OF cu] calling_codes_ok[OF i]
  have cap: "\<exists>v. field_capital (JDict c) = Inr v"
    and lang: "\<exists>v. field_languages (JDict c) = Inr v"
    and cont: "\<exists>v. field_continents (JDict c) = Inr v"
    using assms by (auto simp: documented_shape_def intro: capital_ok languages_ok continents_ok)
  from f12 rest cap lang cont show ?thesis
    unfolding transform_country_Inr_iff by (elim exE) simp
qed

theorem transform_country_total_on_documented_shape_witness:
  "documented_shape
     [(''name'', JDict [(''common'', JStr ''Eswatini''),
                        (''nativeName'', JDict [(''eng'', JDict [(''official'', JStr ''Kingdom of Eswatini'')]),
                                                (''ssw'', JDict [(''common'', JStr ''eSwatini'')])])]),
      (''currencies'', JDict [(''SZL'', JDict [(''name'', JStr ''Swazi lilangeni'')]),
                              (''ZAR'', JDict [(''symbol'', JStr ''R'')])]),
      (''idd'', JDict [(''root'', JStr ''+2''), (''suffixes'', JList [JStr ''68''])]),
      (''languages'', JDict [(''eng'', JStr ''English''), (''ssw'', JStr ''Swazi'')]),
      (''continents'', JList [JStr ''Africa'']),
      (''area'', JFloat 17364), (''independent'', JBool True)] \<and>
   (\<exists>row. transform_country (JDict
     [(''name'', JDict [(''common'', JStr ''Eswatini''),
                        (''nativeName'', JDict [(''eng'', JDict [(''official'', JStr ''Kingdom of Eswatini'')]),
                                                (''ssw'', JDict [(''common'', JStr ''eSwatini'')])])]),
      (''currencies'', JDict [(''SZL'', JDict [(''name'', JStr ''Swazi lilangeni'')]),
                              (''ZAR'', JDict [(''symbol'', JStr ''R'')])]),
      (''idd'', JDict [(''root'', JStr ''+2''), (''suffixes'', JList [JStr ''68''])]),
      (''languages'', JDict [(''eng'', JStr ''English''), (''ssw'', JStr ''Swazi'')]),
      (''continents'', JList [JStr ''Africa'']),
      (''area'', JFloat 17364), (''independent'', JBool True)]) = Inr row \<and> length row = 17)"
proof -
  let ?c = "[(''name'', JDict [(''common'', JStr ''Eswatini''),
                        (''nativeName'', JDict [(''eng'', JDict [(''official'', JStr ''Kingdom of Eswatini'')]),
                                                (''ssw'', JDict [(''common'', JStr ''eSwatini'')])])]),
      (''currencies'', JDict [(''SZL'', JDict [(''name'', JStr ''Swazi lilangeni'')]),
                              (''ZAR'', JDict [(''symbol'', JStr ''R'')])]),
      (''idd'', JDict [(''root'', JStr ''+2''), (''suffixes'', JList [JStr ''68''])]),
      (''languages'', JDict [(''eng'', JStr ''English''), (''ssw'', JStr ''Swazi'')]),
      (''continents'', JList [JStr ''Africa'']),
      (''area'', JFloat 17364), (''independent'', JBool True)]"
  have h: "documented_shape ?c"
    by (simp add: documented_shape_def opt_key_def)
  from transform_country_total_on_documented_shape[OF h] h show ?thesis by simp
qed

text \<open>
  The hypothesis of the last theorem is needed: a \<open>capital\<close> list holding a
  number, or a \<open>name\<close> that is \<^verbatim>\<open>null\<close>, makes the function raise.
\<close>

lemma transform_country_outside_documented_shape:
  "transform_country (JDict [(''capital'', JList [JInt 1])]) = Inl TypeError"
  "transform_country (JDict [(''name'', JNull)]) = Inl AttributeError"
  by (simp_all add: transform_country_def field_defs py_join_def)

text \<open>
  Claim C7. The record with name.common "Testland" and the single currency XYZ
  (name "Testcoin", symbol "T") is transformed into the tuple with common name
  "Testland", currency code "XYZ", currency name "Testcoin", currency symbol
  "T", calling codes "", capital "Unknown", area 0 and population 0.
\<close>

theorem transform_country_testland:
  "transform_country
     (JDict [(''name'', JDict [(''common'', JStr ''Testland'')]),
             (''currencies'',
              JDict [(''XYZ'', JDict [(''name'', JStr ''Testcoin''), (''symbol'', JStr ''T'')])])]) =
   Inr [JStr ''Testland'', JNull, JStr [], JStr ''XYZ'', JStr ''Testcoin'', JStr ''T'',
        JStr [], JStr ''Unknown'', JNull, JNull, JStr [], JInt 0, JInt 0, JStr [],
        JNull, JNull, JNull]"
  by (simp add: transform_country_def field_defs py_join_def)

text \<open>
  When every entry lacks the inner key, the joined field is made of separators
  alone, one less than there are entries.
\<close>

lemma transform_country_all_inner_keys_missing:
  assumes "transform_country (JDict c) = Inr row"
  shows "(\<forall>nm es. map_of c ''name'' = Some (JDict nm) \<and>
                 map_of nm ''nativeName'' = Some (JDict es) \<and>
                 list_all (\<lambda>v. \<exists>d. v = JDict d \<and> map_of d ''common'' = None) (map snd es)
            \<longrightarrow> row ! 2 = JStr (concat (replicate (length es - 1) '', ''))) \<and>
         (\<forall>cur. map_of c ''currencies'' = Some (JDict cur) \<and>
                 list_all (\<lambda>v. \<exists>d. v = JDict d \<and> map_of d ''name'' = None) (map snd cur)
            \<longrightarrow> row ! 4 = JStr (concat (replicate (length cur - 1) '', ''))) \<and>
         (\<forall>cur. map_of c ''currencies'' = Some (JDict cur) \<and>
                 list_all (\<lambda>v. \<exists>d. v = JDict d \<and> map_of d ''symbol'' = None) (map snd cur)
            \<longrightarrow> row ! 5 = JStr (concat (replicate (length cur - 1) '', '')))"
  using assms
  by (auto simp: transform_country_Inr_iff field_native_names_def field_currency_names_def
      field_currency_symbols_def
      dest!: join_missing_inner_key[where k = "''common''"]
             join_missing_inner_key[where k = "''name''"]
             join_missing_inner_key[where k = "''symbol''"])

lemma as_str_Inr: "as_str y = Inr s \<Longrightarrow> y = JStr s"
  by (cases y) simp_all

lemma dict_get_inner_text:
  "dict_get v k (JStr []) = Inr y \<Longrightarrow> as_str y = Inr s \<Longrightarrow> s = inner_text k v"
  by (cases v) (auto dest!: as_str_Inr split: option.splits)

lemma inner_items_text:
  "map_res (\<lambda>v. dict_get v k (JStr [])) vs = Inr items \<Longrightarrow>
   map_res as_str items = Inr ss \<Longrightarrow> ss = map (inner_text k) vs"
proof (induction vs arbitrary: items ss)
  case Nil
  then show ?case by simp
next
  case (Cons v vs)
  from Cons.prems(1) obtain y ys where y: "dict_get v k (JStr []) = Inr y"
    and ys: "map_res (\<lambda>v. dict_get v k (JStr [])) vs = Inr ys" and items: "items = y # ys"
    by (auto simp: bind_res_Inr_iff)
  from Cons.prems(2) items obtain s ss' where s: "as_str y = Inr s"
    and ss': "map_res as_str ys = Inr ss'" and ss: "ss = s # ss'"
    by (auto simp: bind_res_Inr_iff)
  from Cons.IH[OF ys ss'] dict_get_inner_text[OF y s] ss show ?case by simp
qed

lemma join_inner_text:
  "bind_res (map_res (\<lambda>v. dict_get v k (JStr [])) vs) (py_join sep) = Inr r \<Longrightarrow>
   r = JStr (join_sep sep (map (inner_text k) vs))"
  by (auto simp: bind_res_Inr_iff py_join_def dest: inner_items_text)

lemma inner_items_shape:
  "map_res (\<lambda>v. dict_get v k (JStr [])) vs = Inr items \<Longrightarrow>
   map_res as_str items = Inr ss \<Longrightarrow>
   list_all (\<lambda>v. \<exists>d. v = JDict d \<and> (map_of d k = None \<or> (\<exists>s. map_of d k = Some (JStr s)))) vs"
proof (induction vs arbitrary: items ss)
  case Nil
  then show ?case by simp
next
  case (Cons v vs)
  from Cons.prems(1) obtain y ys where y: "dict_get v k (JStr []) = Inr y"
    and ys: "map_res (\<lambda>v. dict_get v k (JStr [])) vs = Inr ys" and items: "items = y # ys"
    by (auto simp: bind_res_Inr_iff)
  from Cons.prems(2) items obtain s ss' where s: "as_str y = Inr s"
    and ss': "map_res as_str ys = Inr ss'"
    by (auto simp: bind_res_Inr_iff)
  from y s have "\<exists>d. v = JDict d \<and> (map_of d k = None \<or> (\<exists>s. map_of d k = Some (JStr s)))"
    by (cases v) (auto dest!: as_str_Inr split: option.splits)
  with Cons.IH[OF ys ss'] show ?case by simp
qed

lemma join_inner_shape:
  "bind_res (map_res (\<lambda>v. dict_get v k (JStr [])) vs) (py_join sep) = Inr r \<Longrightarrow>
   list_all (\<lambda>v. \<exists>d. v = JDict d \<and> (map_of d k = None \<or> (\<exists>s. map_of d k = Some (JStr s)))) vs"
  by (auto simp: bind_res_Inr_iff py_join_def dest: inner_items_shape)

text \<open>
  Claim C10. In the joined entries of the tuple every nested entry contributes
  one item, whether or not it has its inner key: the string under the key, or
  the empty string when the key is missing; an entry is never skipped, so an
  entry without the key still brings its separator. This holds for \<open>common\<close> in
  the entries of \<open>name.nativeName\<close> and for \<open>name\<close> and \<open>symbol\<close> in the entries
  of \<open>currencies\<close>. Whenever a tuple is returned, every such entry is a mapping
  whose inner key is missing or holds a string.
\<close>

theorem transform_country_inner_keys:
  assumes "transform_country (JDict c) = Inr row"
  shows "(\<forall>nm es. map_of c ''name'' = Some (JDict nm) \<and>
                 map_of nm ''nativeName'' = Some (JDict es)
            \<longrightarrow> row ! 2 = JStr (join_sep '', '' (map (inner_text ''common'') (map snd es))) \<and>
                list_all (\<lambda>v. \<exists>d. v = JDict d \<and>
                            (map_of d ''common'' = None \<or> (\<exists>s. map_of d ''common'' = Some (JStr s))))
                  (map snd es)) \<and>
         (\<forall>cur. map_of c ''currencies'' = Some (JDict cur)
            \<longrightarrow> row ! 4 = JStr (join_sep '', '' (map (inner_text ''name'') (map snd cur))) \<and>
                row ! 5 = JStr (join_sep '', '' (map (inner_text ''symbol'') (map snd cur))) \<and>
                list_all (\<lambda>v. \<exists>d. v = JDict d \<and>
                            (map_of d ''name'' = None \<or> (\<exists>s. map_of d ''name'' = Some (JStr s))))
                  (map snd cur) \<and>
                list_all (\<lambda>v. \<exists>d. v = JDict d \<and>
                            (map_of d ''symbol'' = None \<or> (\<exists>s. map_of d ''symbol'' = Some (JStr s))))
                  (map snd cur))"
proof -
  let ?name = "case map_of c ''name'' of None \<Rightarrow> JDict [] | Some v \<Rightarrow> v"
  let ?cur = "case map_of c ''currencies'' of None \<Rightarrow> JDict [] | Some v \<Rightarrow> v"
  from assms have f3: "field_native_names ?name = Inr (row ! 2)"
    and f5: "field_currency_names ?cur = Inr (row ! 4)"
    and f6: "field_currency_symbols ?cur = Inr (row ! 5)"
    by (auto simp: transform_country_Inr_iff)
  have native: "row ! 2 = JStr (join_sep '', '' (map (inner_text ''common'') (map snd es))) \<and>
                list_all (\<lambda>v. \<exists>d. v = JDict d \<and>
                            (map_of d ''common'' = None \<or> (\<exists>s. map_of d ''common'' = Some (JStr s))))
                  (map snd es)"
    if "map_of c ''name'' = Some (JDict nm) \<and> map_of nm ''nativeName'' = Some (JDict es)"
    for nm es
  proof -
    from that f3 have
      "bind_res (map_res (\<lambda>v. dict_get v ''common'' (JStr [])) (map snd es)) (py_join '', '') =
       Inr (row ! 2)"
      by (simp add: field_native_names_def)
    from join_inner_text[OF this] join_inner_shape[OF this] show ?thesis by simp
  qed
  have cur: "row ! 4 = JStr (join_sep '', '' (map (inner_text ''name'') (map snd cur))) \<and>
             row ! 5 = JStr (join_sep '', '' (map (inner_text ''symbol'') (map snd cur))) \<and>
             list_all (\<lambda>v. \<exists>d. v = JDict d \<and>
                         (map_of d ''name'' = None \<or> (\<exists>s. map_of d ''name'' = Some (JStr s))))
               (map snd cur) \<and>
             list_all (\<lambda>v. \<exists>d. v = JDict d \<and>
                         (map_of d ''symbol'' = None \<or> (\<exists>s. map_of d ''symbol'' = Some (JStr s))))
               (map snd cur)"
    if "map_of c ''currencies'' = Some (JDict cur)" for cur
  proof -
    from that f5 have n:
      "bind_res (map_res (\<lambda>v. dict_get v ''name'' (JStr [])) (map snd cur)) (py_join '', '') =
       Inr (row ! 4)"
      by (simp add: field_currency_names_def)
    from that f6 have s:
      "bind_res (map_res (\<lambda>v. dict_get v ''symbol'' (JStr [])) (map snd cur)) (py_join '', '') =
       Inr (row ! 5)"
      by (simp add: field_currency_symbols_def)
    from join_inner_text[OF n] join_inner_text[OF s] join_inner_shape[OF n] join_inner_shape[OF s]
    show ?thesis by simp
  qed
  from native cur show ?thesis by blast
qed

theorem transform_country_inner_keys_witness:
  "transform_country
     (JDict [(''name'', JDict [(''nativeName'',
                               JDict [(''eng'', JDict [(''official'', JStr ''A'')]),
                                      (''fra'', JDict [])])]),
             (''currencies'', JDict [(''USD'', JDict [(''symbol'', JStr ''$'')]),
                                     (''BAM'', JDict [(''name'', JStr ''mark'')])])]) =
   Inr [JNull, JNull, JStr '', '', JStr ''USD, BAM'', JStr '', mark'', JStr ''$, '',
        JStr [], JStr ''Unknown'', JNull, JNull, JStr [], JInt 0, JInt 0, JStr [],
        JNull, JNull, JNull]"
proof -
  let ?c = "[(''name'', JDict [(''nativeName'',
                               JDict [(''eng'', JDict [(''official'', JStr ''A'')]),
                                      (''fra'', JDict [])])]),
             (''currencies'', JDict [(''USD'', JDict [(''symbol'', JStr ''$'')]),
                                     (''BAM'', JDict [(''name'', JStr ''mark'')])])]"
  have r: "transform_country (JDict ?c) =
   Inr [JNull, JNull, JStr '', '', JStr ''USD, BAM'', JStr '', mark'', JStr ''$, '',
        JStr [], JStr ''Unknown'', JNull, JNull, JStr [], JInt 0, JInt 0, JStr [],
        JNull, JNull, JNull]"
    by (simp add: transform_country_def field_defs py_join_def)
  from transform_country_inner_keys[OF r] r show ?thesis by simp
qed

section \<open>Claims about fetch\_country\_data\<close>

lemma bind_io_simps [simp]:
  "bind_io (Inl e, tr) f = (Inl e, tr)"
  "bind_io (Inr v, tr) f = (fst (f v), tr @ snd (f v))"
  by (simp_all add: bind_io_def split: prod.splits)

lemmas io_defs = return_io_def raise_io_def emit_def lift_res_def ext_call_def read_file_def

lemma fetch_country_data_request_fails:
  "url1_response w = Inl msg \<Longrightarrow>
   fetch_country_data w =
     (Inl UnboundLocalError, [HttpGet ''url1'', Print ''Failed to fetch data:''])"
  "url1_response w = Inr r1 \<Longrightarrow> url2_response w = Inl msg \<Longrightarrow>
   fetch_country_data w =
     (Inl UnboundLocalError,
      [HttpGet ''url1'', HttpGet ''url2'', Print ''Failed to fetch data:''])"
  by (simp_all add: fetch_country_data_def fetch_try_def read_local_def io_defs)

text \<open>
  Claim C3. The claim says that when one of the two requests raises,
  \<open>fetch_country_data\<close> logs the failure and returns an empty list. The handler
  does log, but the loop that follows reads \<open>response1\<close> and \<open>response2\<close>, which
  the failed \<^verbatim>\<open>try\<close> block has left unbound: the function raises
  UnboundLocalError instead of returning. Here the first request is refused,
  and then, in another run, the second.
\<close>

theorem fetch_country_data_first_request_fails:
  "fetch_country_data (happy_world\<lparr>url1_response := Inl ''connection refused''\<rparr>) =
     (Inl UnboundLocalError, [HttpGet ''url1'', Print ''Failed to fetch data:'']) \<and>
   fetch_country_data (happy_world\<lparr>url2_response := Inl ''connection refused''\<rparr>) =
     (Inl UnboundLocalError,
      [HttpGet ''url1'', HttpGet ''url2'', Print ''Failed to fetch data:''])"
  by (simp add: fetch_country_data_def fetch_try_def read_local_def io_defs happy_world_def)

lemma map_of_dict_merge:
  "distinct (map fst b) \<Longrightarrow> map_of (dict_merge a b) = map_of a ++ map_of b"
proof (induction b arbitrary: a)
  case Nil
  then show ?case by (simp add: dict_merge_def)
next
  case (Cons kv b)
  obtain k v where kv: "kv = (k, v)" by (cases kv)
  from Cons.prems kv have notin: "k \<notin> fst ` set b" and d: "distinct (map fst b)" by auto
  have "map_of (dict_merge a (kv # b)) = map_of (dict_merge (AList.update k v a) b)"
    by (simp add: dict_merge_def kv)
  also have "\<dots> = (map_of a)(k \<mapsto> v) ++ map_of b"
    by (simp only: Cons.IH[OF d] update_conv')
  also have "\<dots> = map_of a ++ map_of (kv # b)"
  proof
    fix x
    from notin have nk: "map_of b k = None" by (simp add: map_of_eq_None_iff)
    show "((map_of a)(k \<mapsto> v) ++ map_of b) x = (map_of a ++ map_of (kv # b)) x"
      by (cases "x = k") (simp_all add: kv map_add_def nk split: option.splits)
  qed
  finally show ?case .
qed

lemma merge_loop_dicts:
  "merge_loop (zip (map JDict as) (map JDict bs)) acc =
   Inr (acc @ map (\<lambda>(a, b). JDict (dict_merge a b)) (zip as bs))"
proof (induction as arbitrary: bs acc)
  case Nil
  then show ?case by simp
next
  case (Cons a as)
  then show ?case by (cases bs) (simp_all add: merge_country_def)
qed

text \<open>
  Claim C4. When both requests answer with lists of records, of lengths m and n,
  and the merged data can be written to the cache file, \<open>fetch_country_data\<close>
  returns a list of min m n records, and the record at each index is the union
  of the two records at that index, the value of the second response winning
  on every key that both have.
\<close>

theorem fetch_country_data_merge:
  assumes "url1_response w = Inr (JList (map JDict as))"
    and "url2_response w = Inr (JList (map JDict bs))"
    and "\<forall>b \<in> set bs. distinct (map fst b)"
    and "cache_write w = None"
  shows "\<exists>merged. fst (fetch_country_data w) = Inr (JList (map JDict merged)) \<and>
           length merged = min (length as) (length bs) \<and>
           (\<forall>i < length merged. map_of (merged ! i) = map_of (as ! i) ++ map_of (bs ! i))"
proof -
  let ?merged = "map (\<lambda>(a, b). dict_merge a b) (zip as bs)"
  have eq: "map (\<lambda>(a, b). JDict (dict_merge a b)) (zip as bs) = map JDict ?merged"
    by (simp add: case_prod_unfold)
  have "fst (fetch_country_data w) = Inr (JList (map JDict ?merged))"
    using assms(1,2,4)
    by (simp add: fetch_country_data_def fetch_try_def read_local_def io_defs
        merge_loop_dicts eq del: map_map)
  moreover have "length ?merged = min (length as) (length bs)" by simp
  moreover have "map_of (?merged ! i) = map_of (as ! i) ++ map_of (bs ! i)"
    if "i < length ?merged" for i
    using that assms(3) by (simp add: map_of_dict_merge)
  ultimately show ?thesis by blast
qed

theorem fetch_country_data_merge_witness:
  "\<exists>merged.
     fst (fetch_country_data
            (happy_world\<lparr>url1_response :=
               Inr (JList (map JDict
                 [[(''name'', JStr ''Ghana''), (''region'', JStr ''?'')],
                  [(''name'', JStr ''Togo'')]]))\<rparr>)) =
       Inr (JList (map JDict merged)) \<and>
     length merged = 1 \<and>
     map_of (merged ! 0) =
       map_of [(''name'', JStr ''Ghana''), (''region'', JStr ''?'')] ++
       map_of [(''region'', JStr ''Africa'')] \<and>
     map_of (merged ! 0) ''region'' = Some (JStr ''Africa'')"
proof -
  let ?as = "[[(''name'', JStr ''Ghana''), (''region'', JStr ''?'')], [(''name'', JStr ''Togo'')]]"
  let ?bs = "[[(''region'', JStr ''Africa'')]]"
  let ?w = "happy_world\<lparr>url1_response := Inr (JList (map JDict ?as))\<rparr>"
  have "\<exists>merged. fst (fetch_country_data ?w) = Inr (JList (map JDict merged)) \<and>
           length merged = min (length ?as) (length ?bs) \<and>
           (\<forall>i < length merged. map_of (merged ! i) = map_of (?as ! i) ++ map_of (?bs ! i))"
    by (rule fetch_country_data_merge) (simp_all add: happy_world_def)
  then obtain merged where m: "fst (fetch_country_data ?w) = Inr (JList (map JDict merged))"
    and len: "length merged = 1"
    and look: "\<forall>i < length merged. map_of (merged ! i) = map_of (?as ! i) ++ map_of (?bs ! i)"
    by auto
  from len look have "map_of (merged ! 0) = map_of (?as ! 0) ++ map_of (?bs ! 0)" by simp
  with m len show ?thesis by (intro exI[of _ merged]) simp
qed

section \<open>Claims about main\<close>

lemmas main_defs = main_def USE_CACHED_def connect_db_def create_table_def
  insert_countries_def io_defs

lemma is_None_conv: "is_None c = (c = JNull)"
  by (cases c) simp_all

lemma fetch_no_db_event:
  "\<forall>ev \<in> set (snd (fetch_country_data w)). \<not> db_event ev"
  by (auto simp: fetch_country_data_def fetch_try_def read_local_def io_defs bind_io_def
      split: sum.splits option.splits prod.splits)

lemma fetch_not_ValueError: "fst (fetch_country_data w) \<noteq> Inl ValueError"
proof -
  have m: "merge_loop ps acc \<noteq> Inl ValueError" for ps acc
  proof (induction ps acc rule: merge_loop.induct)
    case (1 acc)
    then show ?case by simp
  next
    case (2 c1 c2 rest acc)
    then show ?case
      by (cases c1; cases c2) (simp_all add: merge_country_def)
  qed
  have p: "py_iter v \<noteq> Inl ValueError" for v by (cases v) simp_all
  show ?thesis
    using m p
    by (auto simp: fetch_country_data_def fetch_try_def read_local_def io_defs bind_io_def
        split: sum.splits option.splits prod.splits)
qed

lemma main_database_part:
  "main w =
   bind_io (if USE_CACHED then load_country_data_from_json w else return_io JNull) (\<lambda>cached.
   bind_io (if is_None cached
            then bind_io (emit (Print ''Fetching fresh data from API...'')) (\<lambda>_.
                 fetch_country_data w)
            else return_io cached) (\<lambda>countries.
   bind_io (if \<not> truthy countries then raise_io ValueError else return_io ()) (\<lambda>_.
   main_database_steps w countries)))"
  by (simp add: main_def main_database_steps_def)

lemma main_cases:
  assumes "load_country_data_from_json w = (Inr cached, tr0)"
  shows "cached \<noteq> JNull \<Longrightarrow> \<not> truthy cached \<Longrightarrow> main w = (Inl ValueError, tr0)"
    and "cached \<noteq> JNull \<Longrightarrow> truthy cached \<Longrightarrow>
         main w = (fst (main_database_steps w cached), tr0 @ snd (main_database_steps w cached))"
    and "cached = JNull \<Longrightarrow> fetch_country_data w = (Inl e, tr1) \<Longrightarrow>
         main w = (Inl e, tr0 @ Print ''Fetching fresh data from API...'' # tr1)"
    and "cached = JNull \<Longrightarrow> fetch_country_data w = (Inr fetched, tr1) \<Longrightarrow> \<not> truthy fetched \<Longrightarrow>
         main w = (Inl ValueError, tr0 @ Print ''Fetching fresh data from API...'' # tr1)"
    and "cached = JNull \<Longrightarrow> fetch_country_data w = (Inr fetched, tr1) \<Longrightarrow> truthy fetched \<Longrightarrow>
         main w = (fst (main_database_steps w fetched),
                   tr0 @ Print ''Fetching fresh data from API...'' # tr1 @
                   snd (main_database_steps w fetched))"
  using assms
  by (simp_all add: main_database_part USE_CACHED_def is_None_conv io_defs)

lemma bind_res_Inl_iff:
  "(bind_res m f = Inl e) = (m = Inl e \<or> (\<exists>v. m = Inr v \<and> f v = Inl e))"
  by (cases m) simp_all

lemma map_res_Inl: "map_res f xs = Inl e \<Longrightarrow> \<exists>x \<in> set xs. f x = Inl e"
  by (induction xs) (auto simp: bind_res_Inl_iff)

lemma prims_not_ValueError [simp]:
  "dict_get v k d \<noteq> Inl ValueError"
  "dict_values v \<noteq> Inl ValueError"
  "dict_keys v \<noteq> Inl ValueError"
  "py_iter v \<noteq> Inl ValueError"
  "as_str v \<noteq> Inl ValueError"
  by (cases v; simp)+

lemma num_add_not_ValueError: "num_add x y \<noteq> Inl ValueError"
  by (cases x; cases y) (auto simp: float_of_int_def bind_res_Inl_iff)

lemma py_add_not_ValueError [simp]: "py_add a b \<noteq> Inl ValueError"
  by (cases a; cases b) (simp_all add: num_add_not_ValueError del: num_add.simps)

lemma py_join_not_ValueError [simp]: "py_join sep xs \<noteq> Inl ValueError"
  by (auto simp: py_join_def bind_res_Inl_iff dest!: map_res_Inl)

lemma fields_not_ValueError:
  "field_common v \<noteq> Inl ValueError"
  "field_official v \<noteq> Inl ValueError"
  "field_native_names v \<noteq> Inl ValueError"
  "field_currency_codes v \<noteq> Inl ValueError"
  "field_currency_names v \<noteq> Inl ValueError"
  "field_currency_symbols v \<noteq> Inl ValueError"
  "field_calling_codes v \<noteq> Inl ValueError"
  "field_capital v \<noteq> Inl ValueError"
  "field_languages v \<noteq> Inl ValueError"
  "field_continents v \<noteq> Inl ValueError"
  by (auto simp: field_defs bind_res_Inl_iff dest!: map_res_Inl split: if_splits)

lemma transform_country_not_ValueError: "transform_country c \<noteq> Inl ValueError"
  by (simp add: transform_country_def bind_res_Inl_iff fields_not_ValueError)


lemmas steps_defs = main_database_steps_def connect_db_def create_table_def
  insert_countries_def io_defs bind_io_def

lemma database_steps_not_ValueError: "fst (main_database_steps w c) \<noteq> Inl ValueError"
  using transform_country_not_ValueError
  by (auto simp: steps_defs dest!: map_res_Inl
      split: sum.splits option.splits prod.splits if_splits)

lemma database_steps_no_request: "HttpGet u \<notin> set (snd (main_database_steps w c))"
  by (auto simp: steps_defs split: sum.splits option.splits prod.splits if_splits)

lemma database_steps_release:
  "(CursorClose \<in> set (snd (main_database_steps w c))) =
     (Commit \<in> set (snd (main_database_steps w c)) \<and> commit_exec w = None)"
  "(ConnClose \<in> set (snd (main_database_steps w c))) =
     (CursorClose \<in> set (snd (main_database_steps w c)) \<and> cursor_close w = None)"
  by (auto simp: steps_defs split: sum.splits option.splits prod.splits if_splits)

lemma database_steps_commit:
  "(Commit \<in> set (snd (main_database_steps w c))) =
     (db_connect w = None \<and> cursor_open w = None \<and>
      (\<exists>ddl. ddl_file w = Inr ddl) \<and> ddl_exec w = None \<and>
      (\<exists>cs records. py_iter c = Inr cs \<and> map_res transform_country cs = Inr records) \<and>
      (\<exists>dml. dml_file w = Inr dml) \<and> dml_exec w = None)"
  by (auto simp: steps_defs split: sum.splits option.splits prod.splits if_splits)

lemma database_steps_return:
  "fst (main_database_steps w c) = Inr () \<Longrightarrow>
   \<exists>pre. snd (main_database_steps w c) =
          pre @ [Commit, CursorClose, ConnClose, Print ''All done!'']"
  by (auto simp: steps_defs split: sum.splits option.splits prod.splits if_splits)


lemma load_result:
  obtains cached tr0 where "load_country_data_from_json w = (Inr cached, tr0)"
    and "\<forall>ev \<in> set tr0. \<not> db_event ev" and "\<forall>u. HttpGet u \<notin> set tr0"
  by (cases "cache w") (auto simp: load_country_data_from_json_def)

lemma fetch_makes_request: "HttpGet ''url1'' \<in> set (snd (fetch_country_data w))"
  by (auto simp: fetch_country_data_def fetch_try_def read_local_def io_defs bind_io_def
      split: sum.splits option.splits prod.splits)

text \<open>
  Claim C5. The claim says that main invokes the remote fetch whenever the cache
  yields an empty record list. It does not: the fetch is guarded by
  \<^verbatim>\<open>countries is None\<close>, so a cache file that holds the empty list \<^verbatim>\<open>[]\<close> is
  taken as the data, no request is made, and the run fails with the "no data"
  ValueError although both endpoints would have answered.
\<close>

theorem main_empty_cache_no_fetch:
  "load_country_data_from_json (happy_world\<lparr>cache := Cached (JList [])\<rparr>) =
     (Inr (JList []), [CacheRead]) \<and>
   main (happy_world\<lparr>cache := Cached (JList [])\<rparr>) = (Inl ValueError, [CacheRead]) \<and>
   HttpGet ''url1'' \<notin> set (snd (main (happy_world\<lparr>cache := Cached (JList [])\<rparr>)))"
  by (simp add: main_defs load_country_data_from_json_def happy_world_def)

text \<open>
  Claim C5, as amended. main consults the cache adapter first; it invokes the
  remote fetch exactly when the cache adapter returned \<^verbatim>\<open>None\<close> (file missing,
  unreadable, or holding \<^verbatim>\<open>null\<close>); and it fails with the "no data" ValueError
  exactly when the value it then holds, the cache's if that is not \<^verbatim>\<open>None\<close> and
  otherwise the one the fetch returned, is empty (falsy).
\<close>

theorem main_acquire_records:
  "(\<exists>rest. snd (main w) = snd (load_country_data_from_json w) @ rest) \<and>
   ((\<exists>u. HttpGet u \<in> set (snd (main w))) = (fst (load_country_data_from_json w) = Inr JNull)) \<and>
   ((fst (main w) = Inl ValueError) =
      (\<exists>held. \<not> truthy held \<and>
         (fst (load_country_data_from_json w) = Inr held \<and> held \<noteq> JNull \<or>
          fst (load_country_data_from_json w) = Inr JNull \<and>
          fst (fetch_country_data w) = Inr held)))"
proof -
  obtain cached tr0 where l: "load_country_data_from_json w = (Inr cached, tr0)"
    and nohttp: "\<forall>u. HttpGet u \<notin> set tr0"
    by (rule load_result)
  obtain r tr1 where f: "fetch_country_data w = (r, tr1)" by (cases "fetch_country_data w")
  from fetch_makes_request[of w] f have req: "HttpGet ''url1'' \<in> set tr1" by simp
  from fetch_not_ValueError[of w] f have rne: "r \<noteq> Inl ValueError" by simp
  show ?thesis
  proof (cases "cached = JNull")
    case True
    show ?thesis
    proof (cases r)
      case (Inl e)
      with main_cases(3)[OF l True] f l req rne True show ?thesis by auto
    next
      case (Inr fetched)
      show ?thesis
      proof (cases "truthy fetched")
        case False
        with main_cases(4)[OF l True _ False] Inr f l req True show ?thesis by auto
      next
        case t: True
        with main_cases(5)[OF l True _ t] Inr f l req True database_steps_not_ValueError[of w fetched] database_steps_no_request[where w = w and c = fetched]
        show ?thesis by auto
      qed
    qed
  next
    case False
    show ?thesis
    proof (cases "truthy cached")
      case nt: False
      with main_cases(1)[OF l False nt] l nohttp False show ?thesis by auto
    next
      case t: True
      with main_cases(2)[OF l False t] l nohttp False database_steps_not_ValueError[of w cached] database_steps_no_request[where w = w and c = cached] show ?thesis by auto
    qed
  qed
qed

theorem main_acquire_records_witness:
  "(\<exists>u. HttpGet u \<in> set (snd (main (happy_world\<lparr>cache := NoFile\<rparr>)))) \<and>
   fst (main (happy_world\<lparr>cache := NoFile\<rparr>)) \<noteq> Inl ValueError \<and>
   \<not> (\<exists>u. HttpGet u \<in> set (snd (main (happy_world\<lparr>cache := Cached (JList [])\<rparr>)))) \<and>
   fst (main (happy_world\<lparr>cache := Cached (JList [])\<rparr>)) = Inl ValueError"
proof -
  have l1: "fst (load_country_data_from_json (happy_world\<lparr>cache := NoFile\<rparr>)) = Inr JNull"
    by (simp add: load_country_data_from_json_def)
  have f1: "fst (fetch_country_data (happy_world\<lparr>cache := NoFile\<rparr>)) =
            Inr (JList [JDict [(''name'', JDict [(''common'', JStr ''Ghana'')]),
                               (''region'', JStr ''Africa'')]])"
    by (simp add: fetch_country_data_def fetch_try_def read_local_def io_defs
        merge_country_def dict_merge_def happy_world_def)
  have l2: "fst (load_country_data_from_json (happy_world\<lparr>cache := Cached (JList [])\<rparr>)) =
            Inr (JList [])"
    by (simp add: load_country_data_from_json_def)
  note a = main_acquire_records[of "happy_world\<lparr>cache := NoFile\<rparr>"]
    main_acquire_records[of "happy_world\<lparr>cache := Cached (JList [])\<rparr>"]
  from a show ?thesis by (auto simp: l1 f1 l2)
qed

text \<open>
  When the cache yields nothing usable and the fetch, where it is consulted,
  returns an empty value, main raises the "no data" ValueError before any
  database event.
\<close>

lemma main_no_data_before_database:
  assumes "fst (load_country_data_from_json w) = Inr cached"
    and "\<not> truthy cached"
    and "cached = JNull \<longrightarrow>
         (\<exists>fetched. fst (fetch_country_data w) = Inr fetched \<and> \<not> truthy fetched)"
  shows "fst (main w) = Inl ValueError \<and> (\<forall>ev \<in> set (snd (main w)). \<not> db_event ev)"
proof -
  obtain tr0 where l: "load_country_data_from_json w = (Inr cached, tr0)"
    and tr0: "\<forall>ev \<in> set tr0. \<not> db_event ev"
    using assms(1)
    by (cases "cache w") (auto simp: load_country_data_from_json_def)
  show ?thesis
  proof (cases "cached = JNull")
    case True
    with assms(3) obtain fetched tr1 where f: "fetch_country_data w = (Inr fetched, tr1)"
      and nt: "\<not> truthy fetched"
      by (metis prod.collapse)
    from fetch_no_db_event[of w] f have "\<forall>ev \<in> set tr1. \<not> db_event ev" by simp
    with True l f nt tr0 show ?thesis
      by (auto simp: main_def USE_CACHED_def io_defs)
  next
    case False
    with l assms(2) tr0 show ?thesis
      by (auto simp: main_def USE_CACHED_def io_defs is_None_conv)
  qed
qed

text \<open>
  Every run either ends without a single database event, and then main holds no
  non-empty value, or it holds a non-empty value and goes on to the database
  steps.
\<close>

lemma main_held:
  obtains (no_data) "\<forall>ev \<in> set (snd (main w)). \<not> db_event ev"
      "\<not> (\<exists>held. truthy held \<and>
           (fst (load_country_data_from_json w) = Inr held \<and> held \<noteq> JNull \<or>
            fst (load_country_data_from_json w) = Inr JNull \<and>
            fst (fetch_country_data w) = Inr held))"
  | (data) held pre where "truthy held"
      "fst (load_country_data_from_json w) = Inr held \<and> held \<noteq> JNull \<or>
       fst (load_country_data_from_json w) = Inr JNull \<and> fst (fetch_country_data w) = Inr held"
      "main w = (fst (main_database_steps w held), pre @ snd (main_database_steps w held))"
      "\<forall>ev \<in> set pre. \<not> db_event ev"
proof -
  obtain cached tr0 where l: "load_country_data_from_json w = (Inr cached, tr0)"
    and nodb0: "\<forall>ev \<in> set tr0. \<not> db_event ev"
    by (rule load_result)
  obtain r tr1 where f: "fetch_country_data w = (r, tr1)" by (cases "fetch_country_data w")
  from fetch_no_db_event[of w] f have nodb1: "\<forall>ev \<in> set tr1. \<not> db_event ev" by simp
  show ?thesis
  proof (cases "cached = JNull")
    case True
    show ?thesis
    proof (cases r)
      case (Inl e)
      with main_cases(3)[OF l True] f l True nodb0 nodb1 show ?thesis by (intro no_data) auto
    next
      case (Inr fetched)
      show ?thesis
      proof (cases "truthy fetched")
        case False
        with main_cases(4)[OF l True _ False] Inr f l True nodb0 nodb1 show ?thesis
          by (intro no_data) auto
      next
        case t: True
        from main_cases(5)[OF l True _ t] Inr f
        have m: "main w = (fst (main_database_steps w fetched),
                (tr0 @ Print ''Fetching fresh data from API...'' # tr1) @
                snd (main_database_steps w fetched))" by simp
        show ?thesis
          by (rule data[OF t _ m]) (use l True f Inr nodb0 nodb1 in auto)
      qed
    qed
  next
    case False
    show ?thesis
    proof (cases "truthy cached")
      case nt: False
      with main_cases(1)[OF l False nt] l False nodb0 show ?thesis by (intro no_data) auto
    next
      case t: True
      show ?thesis
        by (rule data[OF t _ main_cases(2)[OF l False t]]) (use l False nodb0 in auto)
    qed
  qed
qed

lemma main_database_only_with_data:
  assumes "ev \<in> set (snd (main w))" "db_event ev"
  shows "\<exists>held. truthy held \<and>
           (fst (load_country_data_from_json w) = Inr held \<and> held \<noteq> JNull \<or>
            fst (load_country_data_from_json w) = Inr JNull \<and>
            fst (fetch_country_data w) = Inr held)"
proof (cases rule: main_held[of w])
  case no_data
  with assms show ?thesis by blast
next
  case (data held pre)
  then show ?thesis by blast
qed

lemma main_fetch_failure:
  assumes "fst (load_country_data_from_json w) = Inr JNull"
    and "(\<exists>msg. url1_response w = Inl msg) \<or> (\<exists>msg. url2_response w = Inl msg)"
  shows "fst (main w) = Inl UnboundLocalError \<and> (\<forall>ev \<in> set (snd (main w)). \<not> db_event ev)"
proof -
  obtain cached tr0 where l0: "load_country_data_from_json w = (Inr cached, tr0)"
    and nodb0: "\<forall>ev \<in> set tr0. \<not> db_event ev"
    by (rule load_result)
  from l0 assms(1) have l: "load_country_data_from_json w = (Inr JNull, tr0)" by simp
  from assms(2) obtain tr1 where f: "fetch_country_data w = (Inl UnboundLocalError, tr1)"
    by (cases "url1_response w") (auto simp: fetch_country_data_request_fails)
  from fetch_no_db_event[of w] f have nodb1: "\<forall>ev \<in> set tr1. \<not> db_event ev" by simp
  from main_cases(3)[OF l _ f] nodb0 nodb1 show ?thesis by auto
qed

text \<open>
  Claim C8. The claim says that a run in which neither the cache nor the fetch
  yields usable records ends with the "no data" error, before any database
  connection is attempted. The database half holds in every run: a database
  event happens only when main holds a non-empty value. The error half holds
  when the value main holds is empty. It fails in the run the claim is about,
  no cache file and a request that fails: \<open>fetch_country_data\<close> does not return an
  empty list there (claim C3) but raises UnboundLocalError, and this exception,
  not the "no data" ValueError, is what leaves main.
\<close>

theorem main_without_data:
  "(\<forall>held. \<not> truthy held \<and>
           (fst (load_country_data_from_json w) = Inr held \<and> held \<noteq> JNull \<or>
            fst (load_country_data_from_json w) = Inr JNull \<and>
            fst (fetch_country_data w) = Inr held)
      \<longrightarrow> fst (main w) = Inl ValueError) \<and>
   (fst (load_country_data_from_json w) = Inr JNull \<and>
    ((\<exists>msg. url1_response w = Inl msg) \<or> (\<exists>msg. url2_response w = Inl msg))
      \<longrightarrow> fst (main w) = Inl UnboundLocalError) \<and>
   ((\<exists>ev \<in> set (snd (main w)). db_event ev)
      \<longrightarrow> (\<exists>held. truthy held \<and>
             (fst (load_country_data_from_json w) = Inr held \<and> held \<noteq> JNull \<or>
              fst (load_country_data_from_json w) = Inr JNull \<and>
              fst (fetch_country_data w) = Inr held)))"
proof (intro conjI allI impI)
  fix held
  assume a: "\<not> truthy held \<and>
           (fst (load_country_data_from_json w) = Inr held \<and> held \<noteq> JNull \<or>
            fst (load_country_data_from_json w) = Inr JNull \<and>
            fst (fetch_country_data w) = Inr held)"
  show "fst (main w) = Inl ValueError"
  proof (cases "held = JNull")
    case True
    with a have l: "fst (load_country_data_from_json w) = Inr JNull"
      and f: "fst (fetch_country_data w) = Inr held" by auto
    from main_no_data_before_database[OF l] a f show ?thesis by auto
  next
    case False
    show ?thesis
    proof (cases "fst (load_country_data_from_json w) = Inr held")
      case True
      from main_no_data_before_database[OF True] a False show ?thesis by auto
    next
      case ne: False
      with a have l: "fst (load_country_data_from_json w) = Inr JNull"
        and f: "fst (fetch_country_data w) = Inr held" by auto
      from main_no_data_before_database[OF l] a f show ?thesis by auto
    qed
  qed
next
  assume "fst (load_country_data_from_json w) = Inr JNull \<and>
    ((\<exists>msg. url1_response w = Inl msg) \<or> (\<exists>msg. url2_response w = Inl msg))"
  then show "fst (main w) = Inl UnboundLocalError"
    using main_fetch_failure[of w] by blast
next
  assume "\<exists>ev \<in> set (snd (main w)). db_event ev"
  then show "\<exists>held. truthy held \<and>
             (fst (load_country_data_from_json w) = Inr held \<and> held \<noteq> JNull \<or>
              fst (load_country_data_from_json w) = Inr JNull \<and>
              fst (fetch_country_data w) = Inr held)"
    using main_database_only_with_data[of _ w] by blast
qed

theorem main_without_data_witness:
  "main (happy_world\<lparr>cache := NoFile, url1_response := Inl ''connection refused'',
                     url2_response := Inl ''connection refused''\<rparr>) =
     (Inl UnboundLocalError,
      [Print ''JSON file countries_raw.json not found'',
       Print ''Fetching fresh data from API...'',
       HttpGet ''url1'', Print ''Failed to fetch data:'']) \<and>
   fst (main (happy_world\<lparr>cache := NoFile, url1_response := Inl ''connection refused'',
                          url2_response := Inl ''connection refused''\<rparr>)) \<noteq> Inl ValueError \<and>
   fst (main (happy_world\<lparr>cache := NoFile, url2_response := Inr (JList [])\<rparr>)) = Inl ValueError \<and>
   DbConnect \<notin> set (snd (main (happy_world\<lparr>cache := NoFile, url2_response := Inr (JList [])\<rparr>)))"
proof -
  let ?w = "happy_world\<lparr>cache := NoFile, url1_response := Inl ''connection refused'',
                       url2_response := Inl ''connection refused''\<rparr>"
  let ?v = "happy_world\<lparr>cache := NoFile, url2_response := Inr (JList [])\<rparr>"
  have l: "fst (load_country_data_from_json ?w) = Inr JNull"
    by (simp add: load_country_data_from_json_def)
  have u: "url1_response ?w = Inl ''connection refused''" by simp
  have m: "main ?w =
     (Inl UnboundLocalError,
      [Print ''JSON file countries_raw.json not found'',
       Print ''Fetching fresh data from API...'',
       HttpGet ''url1'', Print ''Failed to fetch data:''])"
    by (simp add: main_defs load_country_data_from_json_def fetch_country_data_def
        fetch_try_def read_local_def)
  have lv: "fst (load_country_data_from_json ?v) = Inr JNull"
    by (simp add: load_country_data_from_json_def)
  have fv: "fst (fetch_country_data ?v) = Inr (JList [])"
    by (simp add: fetch_country_data_def fetch_try_def read_local_def io_defs happy_world_def)
  from main_without_data[of ?w] l u have e: "fst (main ?w) = Inl UnboundLocalError" by blast
  have nt: "\<not> truthy (JList [])" by simp
  from main_without_data[of ?v]
  have "\<not> truthy (JList []) \<and>
          (fst (load_country_data_from_json ?v) = Inr (JList []) \<and> JList [] \<noteq> JNull \<or>
           fst (load_country_data_from_json ?v) = Inr JNull \<and>
           fst (fetch_country_data ?v) = Inr (JList []))
        \<longrightarrow> fst (main ?v) = Inl ValueError"
    by blast
  with nt lv fv have ev: "fst (main ?v) = Inl ValueError" by blast
  have nodb: "\<not> (\<exists>ev \<in> set (snd (main ?v)). db_event ev)"
  proof
    assume "\<exists>ev \<in> set (snd (main ?v)). db_event ev"
    with main_without_data[of ?v] obtain held where "truthy held"
      "fst (load_country_data_from_json ?v) = Inr held \<and> held \<noteq> JNull \<or>
       fst (load_country_data_from_json ?v) = Inr JNull \<and>
       fst (fetch_country_data ?v) = Inr held"
      by blast
    with lv fv show False by auto
  qed
  from nodb have "DbConnect \<notin> set (snd (main ?v))" by fastforce
  with m e ev show ?thesis by simp
qed

text \<open>
  Claim C9. The claim says that cursor and connection are released on every
  exit path that has acquired them, also when a later step fails. main has no
  \<^verbatim>\<open>try\<close>/\<^verbatim>\<open>finally\<close> around the database steps: when the create-table statement
  is rejected the exception leaves main directly, with the cursor open and the
  connection not closed.
\<close>

theorem main_ddl_fails_no_release:
  "main (happy_world\<lparr>ddl_exec := Some ''permission denied''\<rparr>) =
     (Inl (External ''permission denied''),
      [CacheRead, DbConnect, Print ''Connected to database.'', CursorOpen,
       Execute ''CREATE TABLE IF NOT EXISTS countries'']) \<and>
   cursor_open (happy_world\<lparr>ddl_exec := Some ''permission denied''\<rparr>) = None \<and>
   CursorClose \<notin> set (snd (main (happy_world\<lparr>ddl_exec := Some ''permission denied''\<rparr>))) \<and>
   ConnClose \<notin> set (snd (main (happy_world\<lparr>ddl_exec := Some ''permission denied''\<rparr>)))"
  by (simp add: main_defs load_country_data_from_json_def happy_world_def)

lemma main_release_events:
  "(fst (main w) = Inr () \<longrightarrow>
      (\<exists>pre. snd (main w) = pre @ [Commit, CursorClose, ConnClose, Print ''All done!''])) \<and>
   ((CursorClose \<in> set (snd (main w))) =
      (Commit \<in> set (snd (main w)) \<and> commit_exec w = None)) \<and>
   ((ConnClose \<in> set (snd (main w))) =
      (CursorClose \<in> set (snd (main w)) \<and> cursor_close w = None))"
proof -
  obtain cached tr0 where l: "load_country_data_from_json w = (Inr cached, tr0)"
    and nodb0: "\<forall>ev \<in> set tr0. \<not> db_event ev"
    by (rule load_result)
  obtain r tr1 where f: "fetch_country_data w = (r, tr1)" by (cases "fetch_country_data w")
  from fetch_no_db_event[of w] f have nodb1: "\<forall>ev \<in> set tr1. \<not> db_event ev" by simp
  have out0: "Commit \<notin> set tr0" "CursorClose \<notin> set tr0" "ConnClose \<notin> set tr0"
    using nodb0 by fastforce+
  have out1: "Commit \<notin> set tr1" "CursorClose \<notin> set tr1" "ConnClose \<notin> set tr1"
    using nodb1 by fastforce+
  have shape: ?thesis
    if "main w = (fst (main_database_steps w c), pre0 @ snd (main_database_steps w c))"
      and "Commit \<notin> set pre0" "CursorClose \<notin> set pre0" "ConnClose \<notin> set pre0" for c pre0
  proof -
    have "\<exists>pre. snd (main w) = pre @ [Commit, CursorClose, ConnClose, Print ''All done!'']"
      if "fst (main w) = Inr ()"
    proof -
      from that \<open>main w = _\<close> have "fst (main_database_steps w c) = Inr ()" by simp
      from database_steps_return[OF this] obtain pre where
        "snd (main_database_steps w c) = pre @ [Commit, CursorClose, ConnClose, Print ''All done!'']"
        by blast
      with \<open>main w = _\<close> have
        "snd (main w) = (pre0 @ pre) @ [Commit, CursorClose, ConnClose, Print ''All done!'']"
        by simp
      then show ?thesis by blast
    qed
    moreover from that database_steps_release[of w c]
    have "(CursorClose \<in> set (snd (main w))) =
            (Commit \<in> set (snd (main w)) \<and> commit_exec w = None)"
      and "(ConnClose \<in> set (snd (main w))) =
            (CursorClose \<in> set (snd (main w)) \<and> cursor_close w = None)"
      by auto
    ultimately show ?thesis by blast
  qed
  show ?thesis
  proof (cases "cached = JNull")
    case True
    show ?thesis
    proof (cases r)
      case (Inl e)
      with main_cases(3)[OF l True] f out0 out1 show ?thesis by auto
    next
      case (Inr fetched)
      show ?thesis
      proof (cases "truthy fetched")
        case False
        with main_cases(4)[OF l True _ False] Inr f out0 out1 show ?thesis by auto
      next
        case t: True
        from main_cases(5)[OF l True _ t] Inr f
        have "main w = (fst (main_database_steps w fetched),
                (tr0 @ Print ''Fetching fresh data from API...'' # tr1) @
                snd (main_database_steps w fetched))" by simp
        then show ?thesis by (rule shape) (use out0 out1 in auto)
      qed
    qed
  next
    case False
    show ?thesis
    proof (cases "truthy cached")
      case nt: False
      with main_cases(1)[OF l False nt] out0 show ?thesis by auto
    next
      case t: True
      from main_cases(2)[OF l False t] show ?thesis by (rule shape) (use out0 in auto)
    qed
  qed
qed

text \<open>
  Claim C9, as amended. The cursor and the connection are released on the path
  on which create-table, bulk-insert and commit have all succeeded, and only
  there. The commit is reached exactly when main holds a non-empty value, the
  connection and the cursor were obtained, the create-table file was read and
  its statement executed, every record was transformed, and the insert file was
  read and its statement executed, each without an exception. \<open>cursor.close()\<close>
  is called exactly when the commit was reached and did not raise,
  \<open>conn.close()\<close> exactly when \<open>cursor.close()\<close> was called and did not raise,
  and every run that returns ends with commit, cursor release and connection
  release, in this order.
\<close>

theorem main_release_after_commit:
  "(fst (main w) = Inr () \<longrightarrow>
      (\<exists>pre. snd (main w) = pre @ [Commit, CursorClose, ConnClose, Print ''All done!''])) \<and>
   ((Commit \<in> set (snd (main w))) =
      (\<exists>held. truthy held \<and>
         (fst (load_country_data_from_json w) = Inr held \<and> held \<noteq> JNull \<or>
          fst (load_country_data_from_json w) = Inr JNull \<and>
          fst (fetch_country_data w) = Inr held) \<and>
         db_connect w = None \<and> cursor_open w = None \<and>
         (\<exists>ddl. ddl_file w = Inr ddl) \<and> ddl_exec w = None \<and>
         (\<exists>cs records. py_iter held = Inr cs \<and> map_res transform_country cs = Inr records) \<and>
         (\<exists>dml. dml_file w = Inr dml) \<and> dml_exec w = None)) \<and>
   ((CursorClose \<in> set (snd (main w))) =
      (Commit \<in> set (snd (main w)) \<and> commit_exec w = None)) \<and>
   ((ConnClose \<in> set (snd (main w))) =
      (CursorClose \<in> set (snd (main w)) \<and> cursor_close w = None))"
proof -
  have old: "(fst (main w) = Inr () \<longrightarrow>
      (\<exists>pre. snd (main w) = pre @ [Commit, CursorClose, ConnClose, Print ''All done!''])) \<and>
   ((CursorClose \<in> set (snd (main w))) =
      (Commit \<in> set (snd (main w)) \<and> commit_exec w = None)) \<and>
   ((ConnClose \<in> set (snd (main w))) =
      (CursorClose \<in> set (snd (main w)) \<and> cursor_close w = None))"
    by (rule main_release_events)
  let ?held = "\<lambda>held. fst (load_country_data_from_json w) = Inr held \<and> held \<noteq> JNull \<or>
          fst (load_country_data_from_json w) = Inr JNull \<and>
          fst (fetch_country_data w) = Inr held"
  have uniq: "h = h'" if "?held h" "?held h'" for h h'
    using that by auto
  have "(Commit \<in> set (snd (main w))) =
      (\<exists>held. truthy held \<and> ?held held \<and>
         db_connect w = None \<and> cursor_open w = None \<and>
         (\<exists>ddl. ddl_file w = Inr ddl) \<and> ddl_exec w = None \<and>
         (\<exists>cs records. py_iter held = Inr cs \<and> map_res transform_country cs = Inr records) \<and>
         (\<exists>dml. dml_file w = Inr dml) \<and> dml_exec w = None)"
  proof (cases rule: main_held[of w])
    case no_data
    from no_data(1) have n: "Commit \<notin> set (snd (main w))" by fastforce
    with n no_data(2) show ?thesis by blast
  next
    case (data held pre)
    from data(4) have "Commit \<notin> set pre" by fastforce
    with data(3) have "(Commit \<in> set (snd (main w))) =
       (Commit \<in> set (snd (main_database_steps w held)))" by simp
    also have "\<dots> = (db_connect w = None \<and> cursor_open w = None \<and>
      (\<exists>ddl. ddl_file w = Inr ddl) \<and> ddl_exec w = None \<and>
      (\<exists>cs records. py_iter held = Inr cs \<and> map_res transform_country cs = Inr records) \<and>
      (\<exists>dml. dml_file w = Inr dml) \<and> dml_exec w = None)"
      by (rule database_steps_commit)
    finally show ?thesis using data(1,2) uniq by blast
  qed
  with old show ?thesis by blast
qed

theorem main_release_after_commit_witness:
  "fst (main happy_world) = Inr () \<and>
   (\<exists>pre. snd (main happy_world) = pre @ [Commit, CursorClose, ConnClose, Print ''All done!'']) \<and>
   Commit \<in> set (snd (main happy_world)) \<and>
   CursorClose \<in> set (snd (main happy_world)) \<and>
   ConnClose \<in> set (snd (main happy_world)) \<and>
   Commit \<notin> set (snd (main (happy_world\<lparr>dml_exec := Some ''duplicate key''\<rparr>))) \<and>
   CursorClose \<notin> set (snd (main (happy_world\<lparr>dml_exec := Some ''duplicate key''\<rparr>))) \<and>
   ConnClose \<notin> set (snd (main (happy_world\<lparr>dml_exec := Some ''duplicate key''\<rparr>)))"
proof -
  have m: "main happy_world =
    (Inr (),
     [CacheRead, DbConnect, Print ''Connected to database.'', CursorOpen,
      Execute ''CREATE TABLE IF NOT EXISTS countries'', Print ''Executed SQL'',
      ExecuteMany ''INSERT INTO countries VALUES''
        [[JStr ''Ghana'', JNull, JStr [], JStr [], JStr [], JStr [], JStr [],
          JStr ''Unknown'', JNull, JNull, JStr [], JInt 0, JInt 0, JStr [],
          JNull, JNull, JNull]],
      Print ''Inserted records'', Commit, CursorClose, ConnClose, Print ''All done!''])"
    by (simp add: main_defs load_country_data_from_json_def happy_world_def
        transform_country_def field_defs py_join_def)
  have f: "fst (main happy_world) = Inr ()" by (simp add: m)
  have d: "dml_exec (happy_world\<lparr>dml_exec := Some ''duplicate key''\<rparr>) \<noteq> None" by simp
  from main_release_after_commit[of "happy_world\<lparr>dml_exec := Some ''duplicate key''\<rparr>"] d
  have "Commit \<notin> set (snd (main (happy_world\<lparr>dml_exec := Some ''duplicate key''\<rparr>)))"
    and "CursorClose \<notin> set (snd (main (happy_world\<lparr>dml_exec := Some ''duplicate key''\<rparr>)))"
    and "ConnClose \<notin> set (snd (main (happy_world\<lparr>dml_exec := Some ''duplicate key''\<rparr>)))"
    by blast+
  with main_release_after_commit[of happy_world] f show ?thesis by (simp add: m)
qed

end
